theory Spec2Isabelle
  imports Complex_Main
begin

section \<open>Numbers and the vector primitive\<close>

text \<open>
  The solver computes on JavaScript Numbers. They are modelled as \<open>real\<close>: arithmetic is
  exact, so rounding, overflow, infinities and NaN are outside the model. Every theorem
  below is a statement about the solver's arithmetic read over the reals, with one
  exception: \<open>initializeParticles\<close> floors a quotient, so there the Number operations
  are a parameter and the rounding of the quotient is whatever they make it.
\<close>

text \<open>
  Modelled from the spec: the vector primitive (three.js \<open>Vector3\<close>, an external library
  that is not part of the repository's sources). Section 2 of the specification lists
  its operations (add, subtract, scale, dot, normalize, length, distance); section 3
  fixes that the normalised direction of a zero displacement is the zero vector, which
  is what the library's \<open>normalize\<close> does: it divides by \<open>length() || 1\<close>.
  The methods mutate their receiver; the source clones before every call whose receiver
  must survive, so each method is modelled by the value it leaves in its receiver.
\<close>

datatype vec3 = Vector3 (vx: real) (vy: real) (vz: real)

definition add_v :: "vec3 \<Rightarrow> vec3 \<Rightarrow> vec3" where
  "add_v a b = Vector3 (vx a + vx b) (vy a + vy b) (vz a + vz b)"

definition sub_v :: "vec3 \<Rightarrow> vec3 \<Rightarrow> vec3" where
  "sub_v a b = Vector3 (vx a - vx b) (vy a - vy b) (vz a - vz b)"

definition multiplyScalar :: "vec3 \<Rightarrow> real \<Rightarrow> vec3" where
  "multiplyScalar a c = Vector3 (vx a * c) (vy a * c) (vz a * c)"

definition divideScalar :: "vec3 \<Rightarrow> real \<Rightarrow> vec3" where
  "divideScalar a c = multiplyScalar a (1 / c)"

definition dot_v :: "vec3 \<Rightarrow> vec3 \<Rightarrow> real" where
  "dot_v a b = vx a * vx b + vy a * vy b + vz a * vz b"

definition length_v :: "vec3 \<Rightarrow> real" where
  "length_v a = sqrt (vx a * vx a + vy a * vy a + vz a * vz a)"

definition normalize_v :: "vec3 \<Rightarrow> vec3" where
  "normalize_v a = divideScalar a (if length_v a = 0 then 1 else length_v a)"

definition distanceTo :: "vec3 \<Rightarrow> vec3 \<Rightarrow> real" where
  "distanceTo a b =
     (let dx = vx a - vx b; dy = vy a - vy b; dz = vz a - vz b
      in sqrt (dx * dx + dy * dy + dz * dz))"

definition zero_v :: vec3 where
  "zero_v = Vector3 0 0 0"

definition set_x :: "vec3 \<Rightarrow> real \<Rightarrow> vec3" where
  "set_x a c = Vector3 c (vy a) (vz a)"

definition set_y :: "vec3 \<Rightarrow> real \<Rightarrow> vec3" where
  "set_y a c = Vector3 (vx a) c (vz a)"

definition set_z :: "vec3 \<Rightarrow> real \<Rightarrow> vec3" where
  "set_z a c = Vector3 (vx a) (vy a) c"

section \<open>Particles (SPHParticle.js)\<close>

text \<open>
  A neighbour entry refers to the other particle by its index in the solver's particle
  array (the source holds a reference to the object itself; the array is never
  restructured during a step, so the index names the same object).
\<close>

record neighbor =
  particle :: nat
  distance :: real
  direction :: vec3

record sph_particle =
  position :: vec3
  velocity :: vec3
  acceleration :: vec3
  force :: vec3
  mass :: real
  density :: real
  pressure :: real
  neighbors :: "neighbor list"

definition SPHParticle :: "vec3 \<Rightarrow> real \<Rightarrow> sph_particle" where
  "SPHParticle pos m =
     \<lparr> position = pos, velocity = zero_v, acceleration = zero_v, force = zero_v,
       mass = m, density = 0, pressure = 0, neighbors = [] \<rparr>"

definition resetForce :: "sph_particle \<Rightarrow> sph_particle" where
  "resetForce p = p\<lparr> force := zero_v \<rparr>"

definition addForce :: "sph_particle \<Rightarrow> vec3 \<Rightarrow> sph_particle" where
  "addForce p f = p\<lparr> force := add_v (force p) f \<rparr>"

definition particle_update :: "sph_particle \<Rightarrow> real \<Rightarrow> sph_particle" where
  "particle_update p step =
     (let a = divideScalar (force p) (mass p);
          v = add_v (velocity p) (multiplyScalar a step);
          x = add_v (position p) (multiplyScalar v step)
      in p\<lparr> acceleration := a, velocity := v, position := x \<rparr>)"

section \<open>Obstacles (Obstacle.js)\<close>

text \<open>
  The base class \<open>Obstacle\<close> and its two subclasses. The base class's handler has an
  empty body; the mesh is visualisation state and is left out.
\<close>

datatype obstacle =
    Obstacle
  | SphereObstacle (sphere_position: vec3) (radius: real)
  | BoxObstacle (box_position: vec3) (box_size: vec3) (box_min: vec3) (box_max: vec3)

definition new_BoxObstacle :: "vec3 \<Rightarrow> vec3 \<Rightarrow> obstacle" where
  "new_BoxObstacle pos sz =
     BoxObstacle pos sz (sub_v pos (multiplyScalar sz 0.5)) (add_v pos (multiplyScalar sz 0.5))"

text \<open>The reflection both handlers apply once the collision normal is known.\<close>

definition reflectVelocity :: "sph_particle \<Rightarrow> vec3 \<Rightarrow> real \<Rightarrow> sph_particle" where
  "reflectVelocity p normal damping =
     (let velocityAlongNormal = dot_v (velocity p) normal
      in if velocityAlongNormal < 0
         then (let reflection = multiplyScalar normal (2 * velocityAlongNormal)
               in p\<lparr> velocity := multiplyScalar (sub_v (velocity p) reflection) damping \<rparr>)
         else p)"

definition sphere_handleCollision :: "vec3 \<Rightarrow> real \<Rightarrow> sph_particle \<Rightarrow> real \<Rightarrow> sph_particle" where
  "sphere_handleCollision center rad p damping =
     (let dist = distanceTo (position p) center;
          minDistance = rad + 0.05
      in if dist < minDistance
         then (let normal = normalize_v (sub_v (position p) center);
                   p1 = p\<lparr> position := add_v center (multiplyScalar normal minDistance) \<rparr>
               in reflectVelocity p1 normal damping)
         else p)"

text \<open>
  The face selection of the box handler: the first of the six face distances, in the
  order -x, +x, -y, +y, -z, +z, that equals their minimum gives the normal and the
  coordinate that is overwritten. The last \<open>else\<close> is the source's fall-through (no
  branch taken: zero normal, position untouched).
\<close>

definition box_snap :: "vec3 \<Rightarrow> vec3 \<Rightarrow> vec3 \<Rightarrow> vec3 \<times> vec3" where
  "box_snap bmin bmax pos =
     (let distToMinX = vx pos - vx bmin;
          distToMaxX = vx bmax - vx pos;
          distToMinY = vy pos - vy bmin;
          distToMaxY = vy bmax - vy pos;
          distToMinZ = vz pos - vz bmin;
          distToMaxZ = vz bmax - vz pos;
          minDist = min distToMinX (min distToMaxX (min distToMinY
                      (min distToMaxY (min distToMinZ distToMaxZ))))
      in if minDist = distToMinX then (Vector3 (-1) 0 0, set_x pos (vx bmin))
         else if minDist = distToMaxX then (Vector3 1 0 0, set_x pos (vx bmax))
         else if minDist = distToMinY then (Vector3 0 (-1) 0, set_y pos (vy bmin))
         else if minDist = distToMaxY then (Vector3 0 1 0, set_y pos (vy bmax))
         else if minDist = distToMinZ then (Vector3 0 0 (-1), set_z pos (vz bmin))
         else if minDist = distToMaxZ then (Vector3 0 0 1, set_z pos (vz bmax))
         else (Vector3 0 0 0, pos))"

definition box_inside :: "vec3 \<Rightarrow> vec3 \<Rightarrow> vec3 \<Rightarrow> bool" where
  "box_inside bmin bmax pos =
     (vx pos > vx bmin \<and> vx pos < vx bmax \<and>
      vy pos > vy bmin \<and> vy pos < vy bmax \<and>
      vz pos > vz bmin \<and> vz pos < vz bmax)"

definition box_handleCollision :: "vec3 \<Rightarrow> vec3 \<Rightarrow> sph_particle \<Rightarrow> real \<Rightarrow> sph_particle" where
  "box_handleCollision bmin bmax p damping =
     (if box_inside bmin bmax (position p)
      then (let (normal, pos') = box_snap bmin bmax (position p)
            in reflectVelocity (p\<lparr> position := pos' \<rparr>) normal damping)
      else p)"

fun handleCollision :: "obstacle \<Rightarrow> sph_particle \<Rightarrow> real \<Rightarrow> sph_particle" where
  "handleCollision Obstacle p damping = p"
| "handleCollision (SphereObstacle center rad) p damping = sphere_handleCollision center rad p damping"
| "handleCollision (BoxObstacle pos sz bmin bmax) p damping = box_handleCollision bmin bmax p damping"

section \<open>The solver (SPHSystem.js)\<close>

datatype box3 = Box3 (min_b: vec3) (max_b: vec3)

datatype region = Region (region_min: vec3) (region_max: vec3)

text \<open>
  The configuration object: an option that is absent is \<open>None\<close>. The constructor reads
  each option as \<open>params.x || default\<close>, and a Number that is zero is falsy.
\<close>

record sph_params =
  particleMass_param :: "real option"
  restDensity_param :: "real option"
  gasConstant_param :: "real option"
  smoothingRadius_param :: "real option"
  viscosity_param :: "real option"
  timeStep_param :: "real option"
  gravity_param :: "vec3 option"
  boundingBox_param :: "box3 option"
  surfaceTension_param :: "real option"
  surfaceThreshold_param :: "real option"

fun js_or :: "real option \<Rightarrow> real \<Rightarrow> real" where
  "js_or None d = d"
| "js_or (Some v) d = (if v = 0 then d else v)"

fun js_or_obj :: "'a option \<Rightarrow> 'a \<Rightarrow> 'a" where
  "js_or_obj None d = d"
| "js_or_obj (Some v) d = v"

record sph_system =
  particleMass :: real
  restDensity :: real
  gasConstant :: real
  h :: real
  h2 :: real
  viscosity :: real
  dt :: real
  gravity :: vec3
  boundingBox :: box3
  surfaceTension :: real
  surfaceThreshold :: real
  particles :: "sph_particle list"
  obstacles :: "obstacle list"
  poly6Constant :: real
  spikyGradConstant :: real
  viscosityLaplaceConstant :: real

text \<open>
  The constructor has no \<open>throw\<close> and calls nothing that throws: construction
  returns a solver for every configuration. \<open>None\<close> stands for a rejected construction.
\<close>

definition SPHSystem_constructor :: "sph_params \<Rightarrow> sph_system option" where
  "SPHSystem_constructor params =
     (let hv = js_or (smoothingRadius_param params) 0.16
      in Some \<lparr> particleMass = js_or (particleMass_param params) 1.0,
                restDensity = js_or (restDensity_param params) 1000.0,
                gasConstant = js_or (gasConstant_param params) 2000.0,
                h = hv,
                h2 = hv * hv,
                viscosity = js_or (viscosity_param params) 0.018,
                dt = js_or (timeStep_param params) 0.004,
                gravity = js_or_obj (gravity_param params) (Vector3 0 (-9.8) 0),
                boundingBox = js_or_obj (boundingBox_param params)
                                (Box3 (Vector3 (-1) (-1) (-1)) (Vector3 1 1 1)),
                surfaceTension = js_or (surfaceTension_param params) 0.0728,
                surfaceThreshold = js_or (surfaceThreshold_param params) 7.065,
                particles = [],
                obstacles = [],
                poly6Constant = 315.0 / (64.0 * pi * hv ^ 9),
                spikyGradConstant = - 45.0 / (pi * hv ^ 6),
                viscosityLaplaceConstant = 45.0 / (pi * hv ^ 6) \<rparr>)"

definition addParticle :: "sph_system \<Rightarrow> vec3 \<Rightarrow> sph_system" where
  "addParticle s pos = s\<lparr> particles := particles s @ [SPHParticle pos (particleMass s)] \<rparr>"

definition addObstacle :: "sph_system \<Rightarrow> obstacle \<Rightarrow> sph_system" where
  "addObstacle s ob = s\<lparr> obstacles := obstacles s @ [ob] \<rparr>"

subsection \<open>Kernels\<close>

definition poly6Kernel :: "sph_system \<Rightarrow> real \<Rightarrow> real \<Rightarrow> real" where
  "poly6Kernel s r hr =
     (if r > hr then 0
      else (let trm = hr * hr - r * r in poly6Constant s * trm * trm * trm))"

definition spikyGradKernel :: "sph_system \<Rightarrow> real \<Rightarrow> real \<Rightarrow> vec3 \<Rightarrow> vec3" where
  "spikyGradKernel s r hr dir =
     (if r > hr \<or> r < 0.0001 then Vector3 0 0 0
      else (let trm = hr - r;
                scale = spikyGradConstant s * trm * trm / r
            in multiplyScalar dir scale))"

definition viscosityLaplaceKernel :: "sph_system \<Rightarrow> real \<Rightarrow> real \<Rightarrow> real" where
  "viscosityLaplaceKernel s r hr =
     (if r > hr then 0 else viscosityLaplaceConstant s * (hr - r))"

subsection \<open>Initialisation\<close>

text \<open>
  \<open>initializeParticles\<close> takes \<open>Math.floor\<close> of a quotient, so the number of grid
  cells it finds depends on how the quotient is rounded, and not only within a rounding
  error: a quotient just below 20 that rounds to 20 gives 20 cells and not 19. In this
  function the four operations on Numbers are therefore a parameter. Any four functions on
  the reals may stand for them (the value of a double is a real): double arithmetic is
  one choice, exact arithmetic another, and what is proved of \<open>initializeParticles\<close>
  is proved for every choice. \<open>Math.floor\<close> and the comparisons are exact on doubles,
  and so are the loop indices and the counter, which are small integers.
\<close>

record number_ops =
  num_add :: "real \<Rightarrow> real \<Rightarrow> real"
  num_sub :: "real \<Rightarrow> real \<Rightarrow> real"
  num_mul :: "real \<Rightarrow> real \<Rightarrow> real"
  num_div :: "real \<Rightarrow> real \<Rightarrow> real"

text \<open>
  The three nested \<open>for\<close> loops of \<open>initializeParticles\<close>, innermost first. Each
  carries the solver and the counter \<open>created\<close>; the loop indices count up from zero and
  the cell counts are the integers \<open>Math.floor\<close> returned.
\<close>

function initLoopK ::
  "number_ops \<Rightarrow> real \<Rightarrow> vec3 \<Rightarrow> nat \<Rightarrow> int \<Rightarrow> nat \<Rightarrow> nat \<Rightarrow> nat \<Rightarrow> sph_system \<times> nat
     \<Rightarrow> sph_system \<times> nat" where
  "initLoopK ar spacing mn cnt nz i j k (s, created) =
     (if int k < nz \<and> created < cnt
      then initLoopK ar spacing mn cnt nz i j (Suc k)
             (addParticle s (Vector3 (num_add ar (vx mn) (num_mul ar (real i) spacing))
                                     (num_add ar (vy mn) (num_mul ar (real j) spacing))
                                     (num_add ar (vz mn) (num_mul ar (real k) spacing))),
              Suc created)
      else (s, created))"
  by pat_completeness auto
termination
  by (relation "measure (\<lambda>(ar, spacing, mn, cnt, nz, i, j, k, st). nat (nz - int k))") auto

function initLoopJ ::
  "number_ops \<Rightarrow> real \<Rightarrow> vec3 \<Rightarrow> nat \<Rightarrow> int \<Rightarrow> int \<Rightarrow> nat \<Rightarrow> nat \<Rightarrow> sph_system \<times> nat
     \<Rightarrow> sph_system \<times> nat" where
  "initLoopJ ar spacing mn cnt ny nz i j (s, created) =
     (if int j < ny \<and> created < cnt
      then initLoopJ ar spacing mn cnt ny nz i (Suc j)
             (initLoopK ar spacing mn cnt nz i j 0 (s, created))
      else (s, created))"
  by pat_completeness auto
termination
  by (relation "measure (\<lambda>(ar, spacing, mn, cnt, ny, nz, i, j, st). nat (ny - int j))") auto

function initLoopI ::
  "number_ops \<Rightarrow> real \<Rightarrow> vec3 \<Rightarrow> nat \<Rightarrow> int \<Rightarrow> int \<Rightarrow> int \<Rightarrow> nat \<Rightarrow> sph_system \<times> nat
     \<Rightarrow> sph_system \<times> nat" where
  "initLoopI ar spacing mn cnt nx ny nz i (s, created) =
     (if int i < nx \<and> created < cnt
      then initLoopI ar spacing mn cnt nx ny nz (Suc i)
             (initLoopJ ar spacing mn cnt ny nz i 0 (s, created))
      else (s, created))"
  by pat_completeness auto
termination
  by (relation "measure (\<lambda>(ar, spacing, mn, cnt, nx, ny, nz, i, st). nat (nx - int i))") auto

text \<open>
  The loops are unfolded one iteration at a time in the proofs, not by the simplifier.
\<close>

declare initLoopK.simps [simp del] initLoopJ.simps [simp del] initLoopI.simps [simp del]

definition initializeParticles :: "number_ops \<Rightarrow> sph_system \<Rightarrow> nat \<Rightarrow> region \<Rightarrow> sph_system" where
  "initializeParticles ar s cnt rg =
     (let mn = region_min rg; mx = region_max rg;
          spacing = num_mul ar (h s) 0.5;
          nx = \<lfloor>num_div ar (num_sub ar (vx mx) (vx mn)) spacing\<rfloor>;
          ny = \<lfloor>num_div ar (num_sub ar (vy mx) (vy mn)) spacing\<rfloor>;
          nz = \<lfloor>num_div ar (num_sub ar (vz mx) (vz mn)) spacing\<rfloor>
      in fst (initLoopI ar spacing mn cnt nx ny nz 0 (s, 0)))"

text \<open>
  The grid as the specification words it: spacing \<open>0.5 * h\<close> from \<open>min\<close>, x outermost,
  then y, then z innermost, with the cell counts and coordinates computed by the same
  Number operations; an axis whose cell count is not positive has no cells.
\<close>

definition gridPositions :: "number_ops \<Rightarrow> real \<Rightarrow> region \<Rightarrow> vec3 list" where
  "gridPositions ar hr rg =
     (let mn = region_min rg; mx = region_max rg;
          spacing = num_mul ar hr 0.5;
          nx = nat \<lfloor>num_div ar (num_sub ar (vx mx) (vx mn)) spacing\<rfloor>;
          ny = nat \<lfloor>num_div ar (num_sub ar (vy mx) (vy mn)) spacing\<rfloor>;
          nz = nat \<lfloor>num_div ar (num_sub ar (vz mx) (vz mn)) spacing\<rfloor>
      in concat (map (\<lambda>i. concat (map (\<lambda>j. map (\<lambda>k.
              Vector3 (num_add ar (vx mn) (num_mul ar (real i) spacing))
                      (num_add ar (vy mn) (num_mul ar (real j) spacing))
                      (num_add ar (vz mn) (num_mul ar (real k) spacing)))
            [0..<nz]) [0..<ny])) [0..<nx]))"

definition gridSize :: "number_ops \<Rightarrow> real \<Rightarrow> region \<Rightarrow> nat" where
  "gridSize ar hr rg =
     (let mn = region_min rg; mx = region_max rg;
          spacing = num_mul ar hr 0.5
      in nat \<lfloor>num_div ar (num_sub ar (vx mx) (vx mn)) spacing\<rfloor>
           * nat \<lfloor>num_div ar (num_sub ar (vy mx) (vy mn)) spacing\<rfloor>
           * nat \<lfloor>num_div ar (num_sub ar (vz mx) (vz mn)) spacing\<rfloor>)"

subsection \<open>Neighbour search\<close>

text \<open>
  For the particle at index \<open>i\<close>, the inner loop scans the array in order, skips the
  particle itself (\<open>particle === other\<close> is identity of objects, here of indices) and
  records every other particle whose distance is below \<open>h\<close>. Positions are not written
  during the search, so every distance is taken in the state the search started from.
\<close>

definition neighborEntry :: "sph_system \<Rightarrow> nat \<Rightarrow> nat \<Rightarrow> neighbor" where
  "neighborEntry s i j =
     \<lparr> particle = j,
       distance = distanceTo (position (particles s ! i)) (position (particles s ! j)),
       direction = normalize_v (sub_v (position (particles s ! j)) (position (particles s ! i))) \<rparr>"

definition neighborsOf :: "sph_system \<Rightarrow> nat \<Rightarrow> neighbor list" where
  "neighborsOf s i =
     map (neighborEntry s i)
       (filter (\<lambda>j. j \<noteq> i \<and>
                  distanceTo (position (particles s ! i)) (position (particles s ! j)) < h s)
          [0..<length (particles s)])"

definition findNeighbors :: "sph_system \<Rightarrow> sph_system" where
  "findNeighbors s =
     s\<lparr> particles := map (\<lambda>i. (particles s ! i)\<lparr> neighbors := neighborsOf s i \<rparr>)
                        [0..<length (particles s)] \<rparr>"

subsection \<open>Density and pressure\<close>

text \<open>
  The pass writes \<open>density\<close> and \<open>pressure\<close> only and reads, of the other particles,
  \<open>mass\<close> only, so each particle is computed from the state the pass started from.
\<close>

definition densityOf :: "sph_system \<Rightarrow> sph_particle \<Rightarrow> real" where
  "densityOf s p =
     fold (\<lambda>nb d. d + mass (particles s ! particle nb) * poly6Kernel s (distance nb) (h s))
       (neighbors p) (poly6Kernel s 0 (h s) * mass p)"

definition computeDensityPressure :: "sph_system \<Rightarrow> sph_system" where
  "computeDensityPressure s =
     s\<lparr> particles := map (\<lambda>p. p\<lparr> density := densityOf s p,
                                   pressure := gasConstant s * (densityOf s p - restDensity s) \<rparr>)
                        (particles s) \<rparr>"

subsection \<open>Forces\<close>

text \<open>
  One iteration of the neighbour loop of \<open>computeForces\<close> on its four accumulators:
  pressure force, viscosity force, surface normal and colour-field Laplacian.
\<close>

definition forceStep ::
  "sph_system \<Rightarrow> sph_particle \<Rightarrow> neighbor \<Rightarrow> vec3 \<times> vec3 \<times> vec3 \<times> real \<Rightarrow> vec3 \<times> vec3 \<times> vec3 \<times> real" where
  "forceStep s p nb acc =
     (case acc of (pressureForce, viscosityForce, surfaceNormal, colorFieldLaplacian) \<Rightarrow>
       (let other = particles s ! particle nb;
            dir = direction nb;
            dist = distance nb;
            pressureGrad = spikyGradKernel s dist (h s) dir;
            pressureTerm = (pressure p + pressure other) / (2.0 * density other);
            relativeVelocity = sub_v (velocity other) (velocity p);
            viscosityTerm = viscosityLaplaceKernel s dist (h s) / density other;
            colorGrad = multiplyScalar (spikyGradKernel s dist (h s) dir) (mass other / density other)
        in (add_v pressureForce (multiplyScalar pressureGrad (- mass other * pressureTerm)),
            add_v viscosityForce (multiplyScalar relativeVelocity (mass other * viscosityTerm)),
            add_v surfaceNormal colorGrad,
            colorFieldLaplacian + mass other / density other * viscosityLaplaceKernel s dist (h s))))"

definition forceSums :: "sph_system \<Rightarrow> sph_particle \<Rightarrow> vec3 \<times> vec3 \<times> vec3 \<times> real" where
  "forceSums s p = fold (forceStep s p) (neighbors p) (Vector3 0 0 0, Vector3 0 0 0, Vector3 0 0 0, 0)"

definition pressureForceOn :: "sph_system \<Rightarrow> sph_particle \<Rightarrow> vec3" where
  "pressureForceOn s p = fst (forceSums s p)"

definition computeForces_particle :: "sph_system \<Rightarrow> sph_particle \<Rightarrow> sph_particle" where
  "computeForces_particle s p =
     (case forceSums s p of (pressureForce, viscosityForce, surfaceNormal, colorFieldLaplacian) \<Rightarrow>
       (let p1 = addForce (resetForce p) (multiplyScalar (gravity s) (mass p));
            p2 = addForce p1 pressureForce;
            p3 = addForce p2 (multiplyScalar viscosityForce (viscosity s * mass p));
            surfaceNormalLength = length_v surfaceNormal
        in if surfaceNormalLength > surfaceThreshold s
           then addForce p3 (multiplyScalar (normalize_v surfaceNormal)
                               (- surfaceTension s * colorFieldLaplacian))
           else p3))"

definition computeForces :: "sph_system \<Rightarrow> sph_system" where
  "computeForces s = s\<lparr> particles := map (computeForces_particle s) (particles s) \<rparr>"

subsection \<open>Collisions and the step\<close>

definition wallCollision :: "box3 \<Rightarrow> real \<Rightarrow> sph_particle \<Rightarrow> sph_particle" where
  "wallCollision bb damping p =
     (let mn = min_b bb; mx = max_b bb;
          p1 = (if vx (position p) < vx mn
                then p\<lparr> position := set_x (position p) (vx mn),
                        velocity := set_x (velocity p) (vx (velocity p) * (- damping)) \<rparr>
                else if vx (position p) > vx mx
                then p\<lparr> position := set_x (position p) (vx mx),
                        velocity := set_x (velocity p) (vx (velocity p) * (- damping)) \<rparr>
                else p);
          p2 = (if vy (position p1) < vy mn
                then p1\<lparr> position := set_y (position p1) (vy mn),
                         velocity := set_y (velocity p1) (vy (velocity p1) * (- damping)) \<rparr>
                else if vy (position p1) > vy mx
                then p1\<lparr> position := set_y (position p1) (vy mx),
                         velocity := set_y (velocity p1) (vy (velocity p1) * (- damping)) \<rparr>
                else p1);
          p3 = (if vz (position p2) < vz mn
                then p2\<lparr> position := set_z (position p2) (vz mn),
                         velocity := set_z (velocity p2) (vz (velocity p2) * (- damping)) \<rparr>
                else if vz (position p2) > vz mx
                then p2\<lparr> position := set_z (position p2) (vz mx),
                         velocity := set_z (velocity p2) (vz (velocity p2) * (- damping)) \<rparr>
                else p2)
      in p3)"

definition handleCollisions :: "sph_system \<Rightarrow> sph_system" where
  "handleCollisions s =
     (let damping = 0.5
      in s\<lparr> particles :=
              map (\<lambda>p. fold (\<lambda>ob q. handleCollision ob q damping) (obstacles s)
                          (wallCollision (boundingBox s) damping p))
                  (particles s) \<rparr>)"

definition update_system :: "sph_system \<Rightarrow> sph_system" where
  "update_system s =
     (let s1 = findNeighbors s;
          s2 = computeDensityPressure s1;
          s3 = computeForces s2;
          s4 = s3\<lparr> particles := map (\<lambda>p. particle_update p (dt s3)) (particles s3) \<rparr>
      in handleCollisions s4)"

section \<open>Concrete configurations\<close>

text \<open>
  \<open>new SPHSystem()\<close>: the configuration with every option absent, and the solver it
  constructs. The examples below are built from it.
\<close>

definition defaultParams :: sph_params where
  "defaultParams =
     \<lparr> particleMass_param = None, restDensity_param = None, gasConstant_param = None,
       smoothingRadius_param = None, viscosity_param = None, timeStep_param = None,
       gravity_param = None, boundingBox_param = None, surfaceTension_param = None,
       surfaceThreshold_param = None \<rparr>"

definition defaultSystem :: sph_system where
  "defaultSystem = the (SPHSystem_constructor defaultParams)"

text \<open>
  One particle just outside the +x wall of the default bounding box, at rest and moving
  outwards.
\<close>

definition wallDemoRest :: sph_system where
  "wallDemoRest = defaultSystem\<lparr> particles := [SPHParticle (Vector3 1.01 0 0) 1] \<rparr>"

definition wallDemo :: sph_system where
  "wallDemo = defaultSystem\<lparr> particles := [(SPHParticle (Vector3 1.01 0 0) 1)\<lparr> velocity := Vector3 1 0 0 \<rparr>] \<rparr>"

section \<open>Notions used to state the properties\<close>

text \<open>The number of coordinates in which two positions differ.\<close>

definition coordsChanged :: "vec3 \<Rightarrow> vec3 \<Rightarrow> nat" where
  "coordsChanged a b =
     (if vx a = vx b then 0 else 1) + (if vy a = vy b then 0 else 1) + (if vz a = vz b then 0 else 1)"

text \<open>
  The six distances from a position to the faces of a box, in the source's order, and
  what it means for the particle to have been put on a nearest face: the normal is that
  face's outward axis direction, the coordinate of that axis is the face's, the other two
  coordinates are kept, and no face is nearer.
\<close>

definition faceDistances :: "vec3 \<Rightarrow> vec3 \<Rightarrow> vec3 \<Rightarrow> real list" where
  "faceDistances bmin bmax pos =
     [vx pos - vx bmin, vx bmax - vx pos, vy pos - vy bmin, vy bmax - vy pos,
      vz pos - vz bmin, vz bmax - vz pos]"

definition nearestFace :: "vec3 \<Rightarrow> vec3 \<Rightarrow> vec3 \<Rightarrow> real \<Rightarrow> bool" where
  "nearestFace bmin bmax pos d = list_all (\<lambda>e. d \<le> e) (faceDistances bmin bmax pos)"

definition snappedToNearestFace :: "vec3 \<Rightarrow> vec3 \<Rightarrow> vec3 \<Rightarrow> vec3 \<Rightarrow> vec3 \<Rightarrow> bool" where
  "snappedToNearestFace bmin bmax pos normal pos' =
     ((normal = Vector3 (-1) 0 0 \<and> pos' = Vector3 (vx bmin) (vy pos) (vz pos)
         \<and> nearestFace bmin bmax pos (vx pos - vx bmin))
    \<or> (normal = Vector3 1 0 0 \<and> pos' = Vector3 (vx bmax) (vy pos) (vz pos)
         \<and> nearestFace bmin bmax pos (vx bmax - vx pos))
    \<or> (normal = Vector3 0 (-1) 0 \<and> pos' = Vector3 (vx pos) (vy bmin) (vz pos)
         \<and> nearestFace bmin bmax pos (vy pos - vy bmin))
    \<or> (normal = Vector3 0 1 0 \<and> pos' = Vector3 (vx pos) (vy bmax) (vz pos)
         \<and> nearestFace bmin bmax pos (vy bmax - vy pos))
    \<or> (normal = Vector3 0 0 (-1) \<and> pos' = Vector3 (vx pos) (vy pos) (vz bmin)
         \<and> nearestFace bmin bmax pos (vz pos - vz bmin))
    \<or> (normal = Vector3 0 0 1 \<and> pos' = Vector3 (vx pos) (vy pos) (vz bmax)
         \<and> nearestFace bmin bmax pos (vz bmax - vz pos)))"

text \<open>
  A box obstacle with corners (0,0,0) and (2,2,2), a particle inside it next to the -x
  face and moving out through that face, and a particle on the face (not strictly inside).
\<close>

definition boxDemo :: obstacle where
  "boxDemo = new_BoxObstacle (Vector3 1 1 1) (Vector3 2 2 2)"

definition boxDemoInside :: sph_particle where
  "boxDemoInside = (SPHParticle (Vector3 0.5 1 1) 1)\<lparr> velocity := Vector3 (-1) 0 0 \<rparr>"

definition boxDemoOutside :: sph_particle where
  "boxDemoOutside = (SPHParticle (Vector3 0 1 1) 1)\<lparr> velocity := Vector3 1 0 0 \<rparr>"

text \<open>A particle at the centre of a sphere obstacle, moving.\<close>

definition centerParticle :: sph_particle where
  "centerParticle = (SPHParticle (Vector3 0 0 0) 1)\<lparr> velocity := Vector3 0 (-1) 0 \<rparr>"

text \<open>Configurations with a negative and with a zero smoothing radius and particle mass.\<close>

definition negativeParams :: sph_params where
  "negativeParams = defaultParams\<lparr> smoothingRadius_param := Some (-1), particleMass_param := Some (-2) \<rparr>"

definition zeroParams :: sph_params where
  "zeroParams = defaultParams\<lparr> smoothingRadius_param := Some 0, particleMass_param := Some 0 \<rparr>"

text \<open>Two particles 0.1 apart in the default solver (\<open>h = 0.16\<close>).\<close>

definition pairDemo :: sph_system where
  "pairDemo = addParticle (addParticle defaultSystem (Vector3 0 0 0)) (Vector3 0.1 0 0)"

text \<open>
  The grid by rows and slabs: the point with indices \<open>i\<close>, \<open>j\<close>, \<open>k\<close>, the row of
  all \<open>k\<close> for fixed \<open>i\<close> and \<open>j\<close>, and the slab of all rows for fixed \<open>i\<close>.
  \<open>fill\<close> is what a loop that adds the positions of a list, one by one while
  \<open>created < count\<close>, leaves of the solver and the counter.
\<close>

definition gridPoint :: "number_ops \<Rightarrow> real \<Rightarrow> vec3 \<Rightarrow> nat \<Rightarrow> nat \<Rightarrow> nat \<Rightarrow> vec3" where
  "gridPoint ar spacing mn i j k =
     Vector3 (num_add ar (vx mn) (num_mul ar (real i) spacing))
             (num_add ar (vy mn) (num_mul ar (real j) spacing))
             (num_add ar (vz mn) (num_mul ar (real k) spacing))"

definition fill :: "nat \<Rightarrow> sph_system \<times> nat \<Rightarrow> vec3 list \<Rightarrow> sph_system \<times> nat" where
  "fill cnt st poses =
     (foldl addParticle (fst st) (take (cnt - snd st) poses),
      snd st + min (cnt - snd st) (length poses))"

definition gridRow :: "number_ops \<Rightarrow> real \<Rightarrow> vec3 \<Rightarrow> int \<Rightarrow> nat \<Rightarrow> nat \<Rightarrow> vec3 list" where
  "gridRow ar spacing mn nz i j = map (gridPoint ar spacing mn i j) [0..<nat nz]"

definition gridSlab :: "number_ops \<Rightarrow> real \<Rightarrow> vec3 \<Rightarrow> int \<Rightarrow> int \<Rightarrow> nat \<Rightarrow> vec3 list" where
  "gridSlab ar spacing mn ny nz i = concat (map (gridRow ar spacing mn nz i) [0..<nat ny])"

text \<open>
  Two choices of the Number operations. \<open>exactOps\<close> is exact arithmetic.
  \<open>roundedDivOps n\<close> rounds a quotient to the nearest multiple of \<open>2^-n\<close> and is
  exact otherwise. Double division keeps 53 significant bits: ties aside, it rounds a
  quotient between 16 and 32 to the nearest multiple of \<open>2^-48\<close> and one between 2 and
  4 to the nearest multiple of \<open>2^-51\<close>.
\<close>

definition exactOps :: number_ops where
  "exactOps = \<lparr> num_add = (+), num_sub = (-), num_mul = (*), num_div = (/) \<rparr>"

definition nearestMultiple :: "nat \<Rightarrow> real \<Rightarrow> real" where
  "nearestMultiple n x = of_int \<lfloor>x * 2 ^ n + 1 / 2\<rfloor> / 2 ^ n"

definition roundedDivOps :: "nat \<Rightarrow> number_ops" where
  "roundedDivOps n = exactOps\<lparr> num_div := \<lambda>x y. nearestMultiple n (x / y) \<rparr>"

text \<open>
  A region holding 2 x 1 x 2 grid cells of the default solver (spacing 0.08; the
  quotients are 2.5, 1.25 and 2.5, far from an integer).
\<close>

definition gridDemoRegion :: region where
  "gridDemoRegion = Region (Vector3 0 0 0) (Vector3 0.2 0.1 0.2)"

text \<open>
  The initialisation of \<open>main.js\<close>: smoothing radius 0.1, which as a double is
  \<open>3602879701896397 / 2^55\<close>, and the region from -0.5 to 0.5 on every axis. The
  spacing is half the smoothing radius and the extent is 1, both exact in doubles; the
  quotient is just below 20.
\<close>

definition mainSystem :: sph_system where
  "mainSystem = the (SPHSystem_constructor
     (defaultParams\<lparr> smoothingRadius_param := Some (3602879701896397 / 36028797018963968) \<rparr>))"

definition mainRegion :: region where
  "mainRegion = Region (Vector3 (- 0.5) (- 0.5) (- 0.5)) (Vector3 0.5 0.5 0.5)"

text \<open>
  Smoothing radius 0.2 and the region from 0 to 0.3 on every axis, as doubles: 0.2 is
  \<open>3602879701896397 / 2^54\<close> and 0.3 is \<open>5404319552844595 / 2^54\<close>. The
  quotient is just below 3.
\<close>

definition smallSystem :: sph_system where
  "smallSystem = the (SPHSystem_constructor
     (defaultParams\<lparr> smoothingRadius_param := Some (3602879701896397 / 18014398509481984) \<rparr>))"

definition smallRegion :: region where
  "smallRegion = Region (Vector3 0 0 0)
     (Vector3 (5404319552844595 / 18014398509481984) (5404319552844595 / 18014398509481984)
        (5404319552844595 / 18014398509481984))"

section \<open>Verified properties\<close>

lemma defaultSystem_simps:
  "boundingBox defaultSystem = Box3 (Vector3 (-1) (-1) (-1)) (Vector3 1 1 1)"
  "obstacles defaultSystem = []" "particles defaultSystem = []"
  "h defaultSystem = 0.16" "particleMass defaultSystem = 1"
  by (simp_all add: defaultSystem_def defaultParams_def SPHSystem_constructor_def Let_def)

subsection \<open>Kernels\<close>

text \<open>
  C6. Outside the support, that is for every \<open>r > h\<close>, the Poly6 kernel is 0, the Spiky
  gradient is the zero vector and the viscosity Laplacian is 0; and on the boundary of
  the support \<open>poly6Kernel(h, h)\<close> is 0.
\<close>

theorem kernel_support:
  "(hr < r \<longrightarrow> poly6Kernel s r hr = 0 \<and> spikyGradKernel s r hr dir = Vector3 0 0 0
                 \<and> viscosityLaplaceKernel s r hr = 0)
   \<and> poly6Kernel s hr hr = 0"
  by (simp add: poly6Kernel_def spikyGradKernel_def viscosityLaplaceKernel_def)

theorem kernel_support_witness:
  "(1::real) < 2 \<and> poly6Kernel defaultSystem 2 1 = 0
   \<and> spikyGradKernel defaultSystem 2 1 (Vector3 1 0 0) = Vector3 0 0 0
   \<and> viscosityLaplaceKernel defaultSystem 2 1 = 0
   \<and> poly6Kernel defaultSystem 1 1 = 0"
  using kernel_support [of 1 2 defaultSystem "Vector3 1 0 0"] by simp

text \<open>
  C7. For every \<open>r < 0.0001\<close>, zero and negative distances included, the Spiky gradient
  is the zero vector: the guard returns before the quotient by \<open>r\<close> is formed.
\<close>

theorem spikyGrad_guard:
  "r < 0.0001 \<Longrightarrow> spikyGradKernel s r hr dir = Vector3 0 0 0"
  by (simp add: spikyGradKernel_def)

theorem spikyGrad_guard_witness:
  "(0::real) < 0.0001 \<and> spikyGradKernel defaultSystem 0 0.16 (Vector3 1 0 0) = Vector3 0 0 0"
  using spikyGrad_guard [of 0 defaultSystem "0.16" "Vector3 1 0 0"] by simp

subsection \<open>Bounding-box walls\<close>

text \<open>
  C8. A solver with no obstacles holds a single particle at \<open>(max.x + 0.01, 0, 0)\<close>, and
  the bounding box is not inverted on the x axis beyond that point. After
  \<open>handleCollisions\<close> the particle's \<open>position.x\<close> is \<open>max.x\<close>; if it was at rest
  its \<open>velocity.x\<close> is 0, and if its \<open>velocity.x\<close> was 1 it is now -0.5.
\<close>

theorem wall_reflection:
  assumes "particles s = [p]" and "obstacles s = []"
    and "position p = Vector3 (vx (max_b (boundingBox s)) + 0.01) 0 0"
    and "vx (min_b (boundingBox s)) \<le> vx (max_b (boundingBox s)) + 0.01"
  shows "vx (position (particles (handleCollisions s) ! 0)) = vx (max_b (boundingBox s))
       \<and> (velocity p = Vector3 0 0 0 \<longrightarrow> vx (velocity (particles (handleCollisions s) ! 0)) = 0)
       \<and> (vx (velocity p) = 1 \<longrightarrow> vx (velocity (particles (handleCollisions s) ! 0)) = - 0.5)"
  using assms
  by (simp add: handleCollisions_def wallCollision_def Let_def set_x_def set_y_def set_z_def)

theorem wall_reflection_witness:
  "particles wallDemo = [(SPHParticle (Vector3 1.01 0 0) 1)\<lparr> velocity := Vector3 1 0 0 \<rparr>]
   \<and> obstacles wallDemo = []
   \<and> vx (position (particles (handleCollisions wallDemo) ! 0)) = 1
   \<and> vx (velocity (particles (handleCollisions wallDemo) ! 0)) = - 0.5
   \<and> particles wallDemoRest = [SPHParticle (Vector3 1.01 0 0) 1]
   \<and> obstacles wallDemoRest = []
   \<and> vx (position (particles (handleCollisions wallDemoRest) ! 0)) = 1
   \<and> vx (velocity (particles (handleCollisions wallDemoRest) ! 0)) = 0"
  using wall_reflection [of wallDemo "(SPHParticle (Vector3 1.01 0 0) 1)\<lparr> velocity := Vector3 1 0 0 \<rparr>"]
    wall_reflection [of wallDemoRest "SPHParticle (Vector3 1.01 0 0) 1"]
  by (simp add: wallDemo_def wallDemoRest_def defaultSystem_simps SPHParticle_def zero_v_def)

subsection \<open>Box obstacle\<close>

lemma min6_le:
  fixes a b c d e f :: real
  defines "m \<equiv> min a (min b (min c (min d (min e f))))"
  shows "m \<le> a \<and> m \<le> b \<and> m \<le> c \<and> m \<le> d \<and> m \<le> e \<and> m \<le> f"
  unfolding m_def by linarith

lemma min6_mem:
  fixes a b c d e f :: real
  defines "m \<equiv> min a (min b (min c (min d (min e f))))"
  shows "m = a \<or> m = b \<or> m = c \<or> m = d \<or> m = e \<or> m = f"
  unfolding m_def by linarith

lemma box_snap_nearest:
  "snappedToNearestFace bmin bmax pos (fst (box_snap bmin bmax pos)) (snd (box_snap bmin bmax pos))"
proof -
  define a where "a = vx pos - vx bmin"
  define b where "b = vx bmax - vx pos"
  define c where "c = vy pos - vy bmin"
  define d where "d = vy bmax - vy pos"
  define e where "e = vz pos - vz bmin"
  define f where "f = vz bmax - vz pos"
  define m where "m = min a (min b (min c (min d (min e f))))"
  have le: "m \<le> a \<and> m \<le> b \<and> m \<le> c \<and> m \<le> d \<and> m \<le> e \<and> m \<le> f"
    unfolding m_def by (rule min6_le)
  have mem: "m = a \<or> m = b \<or> m = c \<or> m = d \<or> m = e \<or> m = f"
    unfolding m_def by (rule min6_mem)
  have snap: "box_snap bmin bmax pos =
      (if m = a then (Vector3 (-1) 0 0, Vector3 (vx bmin) (vy pos) (vz pos))
       else if m = b then (Vector3 1 0 0, Vector3 (vx bmax) (vy pos) (vz pos))
       else if m = c then (Vector3 0 (-1) 0, Vector3 (vx pos) (vy bmin) (vz pos))
       else if m = d then (Vector3 0 1 0, Vector3 (vx pos) (vy bmax) (vz pos))
       else if m = e then (Vector3 0 0 (-1), Vector3 (vx pos) (vy pos) (vz bmin))
       else if m = f then (Vector3 0 0 1, Vector3 (vx pos) (vy pos) (vz bmax))
       else (Vector3 0 0 0, pos))"
    unfolding box_snap_def Let_def set_x_def set_y_def set_z_def m_def a_def b_def c_def d_def
      e_def f_def by (rule refl)
  have near: "nearestFace bmin bmax pos m"
    using le unfolding nearestFace_def faceDistances_def a_def b_def c_def d_def e_def f_def
    by simp
  have goal: "snappedToNearestFace bmin bmax pos n q =
     ((n = Vector3 (-1) 0 0 \<and> q = Vector3 (vx bmin) (vy pos) (vz pos) \<and> nearestFace bmin bmax pos a)
    \<or> (n = Vector3 1 0 0 \<and> q = Vector3 (vx bmax) (vy pos) (vz pos) \<and> nearestFace bmin bmax pos b)
    \<or> (n = Vector3 0 (-1) 0 \<and> q = Vector3 (vx pos) (vy bmin) (vz pos) \<and> nearestFace bmin bmax pos c)
    \<or> (n = Vector3 0 1 0 \<and> q = Vector3 (vx pos) (vy bmax) (vz pos) \<and> nearestFace bmin bmax pos d)
    \<or> (n = Vector3 0 0 (-1) \<and> q = Vector3 (vx pos) (vy pos) (vz bmin) \<and> nearestFace bmin bmax pos e)
    \<or> (n = Vector3 0 0 1 \<and> q = Vector3 (vx pos) (vy pos) (vz bmax) \<and> nearestFace bmin bmax pos f))"
    for n q
    unfolding snappedToNearestFace_def a_def b_def c_def d_def e_def f_def by (rule refl)
  from mem consider
      (1) "m = a"
    | (2) "m \<noteq> a" "m = b"
    | (3) "m \<noteq> a" "m \<noteq> b" "m = c"
    | (4) "m \<noteq> a" "m \<noteq> b" "m \<noteq> c" "m = d"
    | (5) "m \<noteq> a" "m \<noteq> b" "m \<noteq> c" "m \<noteq> d" "m = e"
    | (6) "m \<noteq> a" "m \<noteq> b" "m \<noteq> c" "m \<noteq> d" "m \<noteq> e" "m = f"
    by blast
  then show ?thesis
  proof cases
    case 1
    have "nearestFace bmin bmax pos a" using near 1 by simp
    then show ?thesis unfolding goal snap using 1 by simp
  next
    case 2
    have "nearestFace bmin bmax pos b" using near 2 by simp
    then show ?thesis unfolding goal snap using 2 by simp
  next
    case 3
    have "nearestFace bmin bmax pos c" using near 3 by simp
    then show ?thesis unfolding goal snap using 3 by simp
  next
    case 4
    have "nearestFace bmin bmax pos d" using near 4 by simp
    then show ?thesis unfolding goal snap using 4 by simp
  next
    case 5
    have "nearestFace bmin bmax pos e" using near 5 by simp
    then show ?thesis unfolding goal snap using 5 by simp
  next
    case 6
    have "nearestFace bmin bmax pos f" using near 6 by simp
    then show ?thesis unfolding goal snap using 6 by simp
  qed
qed

lemma box_snap_one_coordinate:
  assumes "box_inside bmin bmax pos"
  shows "coordsChanged pos (snd (box_snap bmin bmax pos)) = 1"
proof -
  have ins: "vx bmin < vx pos" "vx pos < vx bmax" "vy bmin < vy pos" "vy pos < vy bmax"
    "vz bmin < vz pos" "vz pos < vz bmax"
    using assms by (simp_all add: box_inside_def)
  define q where "q = snd (box_snap bmin bmax pos)"
  have "q = Vector3 (vx bmin) (vy pos) (vz pos) \<or> q = Vector3 (vx bmax) (vy pos) (vz pos)
      \<or> q = Vector3 (vx pos) (vy bmin) (vz pos) \<or> q = Vector3 (vx pos) (vy bmax) (vz pos)
      \<or> q = Vector3 (vx pos) (vy pos) (vz bmin) \<or> q = Vector3 (vx pos) (vy pos) (vz bmax)"
    using box_snap_nearest [of bmin bmax pos] unfolding snappedToNearestFace_def q_def by blast
  then have "coordsChanged pos q = 1"
    unfolding coordsChanged_def using ins by (elim disjE) simp_all
  then show ?thesis by (simp add: q_def)
qed

lemma reflectVelocity_position: "position (reflectVelocity p n d) = position p"
  by (simp add: reflectVelocity_def Let_def)

lemma reflectVelocity_outward: "0 \<le> dot_v (velocity p) n \<Longrightarrow> reflectVelocity p n d = p"
  by (simp add: reflectVelocity_def Let_def)

text \<open>
  C10. A particle that is not strictly inside the box is returned unchanged. A particle
  strictly inside is put on a nearest face (first match in the order -x, +x, -y, +y, -z,
  +z): exactly one coordinate of its position changes, the one of the selected face's
  axis, and it becomes that face's coordinate; the velocity is unchanged unless its
  component along the selected face normal is negative; no other field changes.
\<close>

theorem box_frame:
  fixes bpos bsize bmin bmax :: vec3 and p :: sph_particle and damping :: real
  defines "p' \<equiv> handleCollision (BoxObstacle bpos bsize bmin bmax) p damping"
    and "normal \<equiv> fst (box_snap bmin bmax (position p))"
  shows "(\<not> box_inside bmin bmax (position p) \<longrightarrow> p' = p)
   \<and> (box_inside bmin bmax (position p) \<longrightarrow>
        snappedToNearestFace bmin bmax (position p) normal (position p')
        \<and> coordsChanged (position p) (position p') = 1
        \<and> (0 \<le> dot_v (velocity p) normal \<longrightarrow> velocity p' = velocity p)
        \<and> p' = p\<lparr> position := position p', velocity := velocity p' \<rparr>)"
proof (cases "box_inside bmin bmax (position p)")
  case False
  then show ?thesis by (simp add: p'_def box_handleCollision_def)
next
  case True
  have eq: "p' = reflectVelocity (p\<lparr> position := snd (box_snap bmin bmax (position p)) \<rparr>) normal damping"
    using True by (simp add: p'_def normal_def box_handleCollision_def split_beta)
  have pos: "position p' = snd (box_snap bmin bmax (position p))"
    by (simp add: eq reflectVelocity_position)
  have vel: "velocity p' = velocity p" if "0 \<le> dot_v (velocity p) normal"
    using that by (simp add: eq reflectVelocity_outward)
  have fr: "p' = p\<lparr> position := position p', velocity := velocity p' \<rparr>"
    unfolding eq by (simp add: reflectVelocity_def Let_def)
  have near: "snappedToNearestFace bmin bmax (position p) normal (position p')"
    unfolding pos normal_def by (rule box_snap_nearest)
  have one: "coordsChanged (position p) (position p') = 1"
    unfolding pos by (rule box_snap_one_coordinate [OF True])
  show ?thesis
    using True near one vel fr by blast
qed

lemma boxDemo_eq: "boxDemo = BoxObstacle (Vector3 1 1 1) (Vector3 2 2 2) (Vector3 0 0 0) (Vector3 2 2 2)"
  by (simp add: boxDemo_def new_BoxObstacle_def sub_v_def add_v_def multiplyScalar_def)

lemma boxDemo_snap: "box_snap (Vector3 0 0 0) (Vector3 2 2 2) (Vector3 (1 / 2) 1 1) = (Vector3 (-1) 0 0, Vector3 0 1 1)"
  by (simp add: box_snap_def Let_def set_x_def)

theorem box_frame_witness:
  "box_inside (Vector3 0 0 0) (Vector3 2 2 2) (position boxDemoInside)
   \<and> position (handleCollision boxDemo boxDemoInside 0.5) = Vector3 0 1 1
   \<and> coordsChanged (position boxDemoInside) (position (handleCollision boxDemo boxDemoInside 0.5)) = 1
   \<and> velocity (handleCollision boxDemo boxDemoInside 0.5) = Vector3 (-1) 0 0
   \<and> \<not> box_inside (Vector3 0 0 0) (Vector3 2 2 2) (position boxDemoOutside)
   \<and> handleCollision boxDemo boxDemoOutside 0.5 = boxDemoOutside"
  using box_frame [where bpos = "Vector3 1 1 1" and bsize = "Vector3 2 2 2" and bmin = "Vector3 0 0 0"
        and bmax = "Vector3 2 2 2" and p = boxDemoInside and damping = "0.5"]
    box_frame [where bpos = "Vector3 1 1 1" and bsize = "Vector3 2 2 2" and bmin = "Vector3 0 0 0"
        and bmax = "Vector3 2 2 2" and p = boxDemoOutside and damping = "0.5"]
  by (simp add: boxDemo_eq boxDemoInside_def boxDemoOutside_def SPHParticle_def box_inside_def
      boxDemo_snap snappedToNearestFace_def dot_v_def coordsChanged_def)

subsection \<open>Sphere obstacle\<close>

lemma distanceTo_self: "distanceTo a a = 0"
  by (simp add: distanceTo_def)

lemma normalize_zero: "normalize_v (sub_v a a) = Vector3 0 0 0"
  by (simp add: normalize_v_def sub_v_def length_v_def divideScalar_def multiplyScalar_def)

text \<open>
  C2. A particle exactly at the centre of a sphere obstacle is not pushed out: the
  collision normal is the normalised zero vector, which is the zero vector, so the
  handler writes the centre back as the position and, the velocity having no component
  along a zero normal, leaves the velocity alone. The particle is returned unchanged, at
  distance 0 from the centre and not at \<open>radius + 0.05\<close>.
\<close>

theorem sphere_center_not_pushed_out:
  assumes "position p = center"
  shows "handleCollision (SphereObstacle center rad) p damping = p
       \<and> distanceTo (position (handleCollision (SphereObstacle center rad) p damping)) center = 0"
proof -
  have "handleCollision (SphereObstacle center rad) p damping = p"
    using assms
    by (simp add: sphere_handleCollision_def Let_def distanceTo_self normalize_zero
        reflectVelocity_def dot_v_def add_v_def multiplyScalar_def)
  then show ?thesis using assms by (simp add: distanceTo_self)
qed

theorem sphere_center_failing_input:
  "position centerParticle = Vector3 0 0 0
   \<and> handleCollision (SphereObstacle (Vector3 0 0 0) 1) centerParticle 0.5 = centerParticle
   \<and> distanceTo (position (handleCollision (SphereObstacle (Vector3 0 0 0) 1) centerParticle 0.5))
        (Vector3 0 0 0) = 0
   \<and> (0::real) \<noteq> 1 + 0.05"
  using sphere_center_not_pushed_out [where p = centerParticle and center = "Vector3 0 0 0"
        and rad = 1 and damping = "0.5"]
  by (simp add: centerParticle_def SPHParticle_def distanceTo_self)

subsection \<open>Construction\<close>

text \<open>
  C3, as the specification states it, fails: a configuration with smoothing radius -1 and
  particle mass -2 is not rejected. The constructor returns a solver with \<open>h = -1\<close>,
  particle mass -2 and a negative Poly6 constant.
\<close>

theorem constructor_accepts_negative:
  "smoothingRadius_param negativeParams = Some (-1)
   \<and> particleMass_param negativeParams = Some (-2)
   \<and> SPHSystem_constructor negativeParams \<noteq> None
   \<and> h (the (SPHSystem_constructor negativeParams)) = -1
   \<and> particleMass (the (SPHSystem_constructor negativeParams)) = -2
   \<and> poly6Constant (the (SPHSystem_constructor negativeParams)) < 0"
  by (simp add: negativeParams_def defaultParams_def SPHSystem_constructor_def Let_def
      divide_neg_pos)

text \<open>
  C3, amended. Construction never fails. A smoothing radius or particle mass that is
  absent or zero is replaced by the default (0.16 and 1.0), any other value, negative
  ones included, is taken as given; so \<open>h\<close> and the particle mass of the constructed
  solver are never zero and the three kernel constants are the stated quotients with a
  non-zero denominator.
\<close>

theorem constructor_never_rejects:
  "\<exists>s. SPHSystem_constructor params = Some s
     \<and> (\<forall>v. smoothingRadius_param params = Some v \<and> v \<noteq> 0 \<longrightarrow> h s = v)
     \<and> (smoothingRadius_param params = None \<or> smoothingRadius_param params = Some 0 \<longrightarrow> h s = 0.16)
     \<and> (\<forall>m. particleMass_param params = Some m \<and> m \<noteq> 0 \<longrightarrow> particleMass s = m)
     \<and> (particleMass_param params = None \<or> particleMass_param params = Some 0 \<longrightarrow> particleMass s = 1)
     \<and> h s \<noteq> 0 \<and> particleMass s \<noteq> 0
     \<and> poly6Constant s = 315 / (64 * pi * h s ^ 9)
     \<and> spikyGradConstant s = - 45 / (pi * h s ^ 6)
     \<and> viscosityLaplaceConstant s = 45 / (pi * h s ^ 6)"
  by (cases "smoothingRadius_param params"; cases "particleMass_param params")
     (simp_all add: SPHSystem_constructor_def Let_def)

theorem constructor_never_rejects_witness:
  "SPHSystem_constructor negativeParams \<noteq> None
   \<and> h (the (SPHSystem_constructor negativeParams)) = -1
   \<and> particleMass (the (SPHSystem_constructor negativeParams)) = -2
   \<and> SPHSystem_constructor zeroParams \<noteq> None
   \<and> h (the (SPHSystem_constructor zeroParams)) = 0.16
   \<and> particleMass (the (SPHSystem_constructor zeroParams)) = 1"
  using constructor_never_rejects [of negativeParams] constructor_never_rejects [of zeroParams]
  by (auto simp add: negativeParams_def zeroParams_def defaultParams_def)

subsection \<open>Neighbour search, density and pressure force\<close>

lemma distanceTo_commute: "distanceTo a b = distanceTo b a"
proof -
  have sq: "(x - y) * (x - y) = (y - x) * (y - x)" for x y :: real
    by (simp add: algebra_simps)
  have "distanceTo a b = sqrt ((vx a - vx b) * (vx a - vx b) + (vy a - vy b) * (vy a - vy b)
          + (vz a - vz b) * (vz a - vz b))"
    by (simp add: distanceTo_def Let_def)
  also have "\<dots> = sqrt ((vx b - vx a) * (vx b - vx a) + (vy b - vy a) * (vy b - vy a)
          + (vz b - vz a) * (vz b - vz a))"
    by (simp only: sq [of "vx a" "vx b"] sq [of "vy a" "vy b"] sq [of "vz a" "vz b"])
  also have "\<dots> = distanceTo b a"
    by (simp add: distanceTo_def Let_def)
  finally show ?thesis .
qed

lemma length_sub_distanceTo: "length_v (sub_v b a) = distanceTo b a"
  by (simp add: length_v_def sub_v_def distanceTo_def Let_def)

lemma length_sub_commute: "length_v (sub_v b a) = length_v (sub_v a b)"
  by (simp add: length_sub_distanceTo distanceTo_commute)

lemma distanceTo_nonneg: "0 \<le> distanceTo a b"
  by (simp add: distanceTo_def Let_def)

lemma normalize_sub_negate:
  "normalize_v (sub_v b a) = multiplyScalar (normalize_v (sub_v a b)) (- 1)"
proof -
  have neg: "(y - x) * c = - ((x - y) * c)" for x y c :: real
    by (simp add: algebra_simps)
  have "normalize_v (sub_v b a) =
        divideScalar (sub_v b a) (if length_v (sub_v a b) = 0 then 1 else length_v (sub_v a b))"
    unfolding normalize_v_def by (simp only: length_sub_commute [of b a])
  also have "\<dots> = multiplyScalar (normalize_v (sub_v a b)) (- 1)"
    unfolding normalize_v_def divideScalar_def sub_v_def multiplyScalar_def vec3.sel
    by (simp only: neg [of "vx b" "vx a"] neg [of "vy b" "vy a"] neg [of "vz b" "vz a"]
        mult_minus1_right)
  finally show ?thesis .
qed

lemma findNeighbors_length: "length (particles (findNeighbors s)) = length (particles s)"
  by (simp add: findNeighbors_def)

lemma findNeighbors_nth:
  "i < length (particles s) \<Longrightarrow>
     particles (findNeighbors s) ! i = (particles s ! i)\<lparr> neighbors := neighborsOf s i \<rparr>"
  by (simp add: findNeighbors_def)

lemma neighborsOf_set:
  "set (neighborsOf s i) =
     neighborEntry s i ` {j. j < length (particles s) \<and> j \<noteq> i \<and>
        distanceTo (position (particles s ! i)) (position (particles s ! j)) < h s}"
  by (auto simp add: neighborsOf_def)

lemma neighborEntry_particle: "particle (neighborEntry s i j) = j"
  by (simp add: neighborEntry_def)

lemma neighborsOf_lists:
  "j < length (particles s) \<Longrightarrow> j \<noteq> i \<Longrightarrow>
     (j \<in> particle ` set (neighborsOf s i)) =
     (distanceTo (position (particles s ! i)) (position (particles s ! j)) < h s)"
  unfolding neighborsOf_set by (force simp add: neighborEntry_particle image_iff)

lemma neighborsOf_entry:
  "nb \<in> set (neighborsOf s i) \<Longrightarrow> nb = neighborEntry s i (particle nb)"
  unfolding neighborsOf_set by (auto simp add: neighborEntry_particle)

text \<open>
  C5. After \<open>findNeighbors\<close>, for two distinct particles A (index \<open>i\<close>) and B (index
  \<open>j\<close>), whose positions the search does not change: A's neighbour list contains B
  exactly when their distance is strictly below \<open>h\<close> (a pair at distance \<open>h\<close> is
  excluded); A lists B exactly when B lists A; every entry for B in A's list, and every
  entry for A in B's list, records the distance \<open>|B.position - A.position|\<close> and the
  normalised displacement towards the neighbour; and the two recorded directions are
  negations of each other.
\<close>

theorem neighbor_symmetry:
  fixes s :: sph_system and i j :: nat
  defines "s' \<equiv> findNeighbors s"
    and "A \<equiv> position (particles s ! i)"
    and "B \<equiv> position (particles s ! j)"
  assumes i: "i < length (particles s)" and j: "j < length (particles s)" and ij: "i \<noteq> j"
  shows "position (particles s' ! i) = A \<and> position (particles s' ! j) = B
    \<and> (j \<in> particle ` set (neighbors (particles s' ! i))) = (distanceTo A B < h s)
    \<and> (j \<in> particle ` set (neighbors (particles s' ! i)))
        = (i \<in> particle ` set (neighbors (particles s' ! j)))
    \<and> (\<forall>nb \<in> set (neighbors (particles s' ! i)). particle nb = j \<longrightarrow>
          distance nb = length_v (sub_v B A) \<and> direction nb = normalize_v (sub_v B A))
    \<and> (\<forall>nb \<in> set (neighbors (particles s' ! j)). particle nb = i \<longrightarrow>
          distance nb = length_v (sub_v B A) \<and> direction nb = normalize_v (sub_v A B))
    \<and> (\<forall>nbA \<in> set (neighbors (particles s' ! i)). \<forall>nbB \<in> set (neighbors (particles s' ! j)).
          particle nbA = j \<and> particle nbB = i \<longrightarrow>
          direction nbA = multiplyScalar (direction nbB) (- 1) \<and> distance nbA = distance nbB)"
proof -
  have ni: "neighbors (particles s' ! i) = neighborsOf s i"
    and nj: "neighbors (particles s' ! j) = neighborsOf s j"
    and pi: "position (particles s' ! i) = A" and pj: "position (particles s' ! j) = B"
    using i j by (simp_all add: s'_def A_def B_def findNeighbors_nth)
  have li: "(j \<in> particle ` set (neighborsOf s i)) = (distanceTo A B < h s)"
    unfolding A_def B_def using j ij by (intro neighborsOf_lists) auto
  have lj: "(i \<in> particle ` set (neighborsOf s j)) = (distanceTo A B < h s)"
    unfolding A_def B_def using i ij neighborsOf_lists [of i s j]
    by (simp add: distanceTo_commute)
  have ei: "distance nb = length_v (sub_v B A) \<and> direction nb = normalize_v (sub_v B A)"
    if "nb \<in> set (neighborsOf s i)" "particle nb = j" for nb
    using neighborsOf_entry [OF that(1)] that(2)
    by (simp add: neighborEntry_def A_def B_def length_sub_distanceTo distanceTo_commute)
  have ej: "distance nb = length_v (sub_v B A) \<and> direction nb = normalize_v (sub_v A B)"
    if "nb \<in> set (neighborsOf s j)" "particle nb = i" for nb
    using neighborsOf_entry [OF that(1)] that(2)
    by (simp add: neighborEntry_def A_def B_def length_sub_distanceTo distanceTo_commute)
  have rec: "direction nbA = multiplyScalar (direction nbB) (- 1) \<and> distance nbA = distance nbB"
    if "nbA \<in> set (neighborsOf s i)" "nbB \<in> set (neighborsOf s j)"
      "particle nbA = j" "particle nbB = i" for nbA nbB
    using ei [OF that(1) that(3)] ej [OF that(2) that(4)]
    by (simp add: normalize_sub_negate [of B A])
  show ?thesis
    unfolding ni nj pi pj using li lj ei ej rec by blast
qed

lemma pairDemo_particles:
  "particles pairDemo = [SPHParticle (Vector3 0 0 0) 1, SPHParticle (Vector3 (1 / 10) 0 0) 1]"
  by (simp add: pairDemo_def addParticle_def defaultSystem_simps)

lemma pairDemo_h: "h pairDemo = 4 / 25"
  by (simp add: pairDemo_def addParticle_def defaultSystem_simps)

lemma sqrt_hundredth: "sqrt (1 / 100) = 1 / 10"
  by (rule real_sqrt_unique) (simp_all add: power2_eq_square)

lemma pairDemo_distance: "distanceTo (Vector3 0 0 0) (Vector3 (1 / 10) 0 0) = 1 / 10"
  by (simp add: distanceTo_def Let_def sqrt_hundredth)

theorem neighbor_symmetry_witness:
  "(0::nat) < length (particles pairDemo) \<and> (1::nat) < length (particles pairDemo)
   \<and> distanceTo (position (particles pairDemo ! 0)) (position (particles pairDemo ! 1)) < h pairDemo
   \<and> 1 \<in> particle ` set (neighbors (particles (findNeighbors pairDemo) ! 0))
   \<and> 0 \<in> particle ` set (neighbors (particles (findNeighbors pairDemo) ! 1))"
  using neighbor_symmetry [where s = pairDemo and i = 0 and j = 1]
  by (auto simp add: pairDemo_particles pairDemo_h SPHParticle_def pairDemo_distance)

lemma fold_add_nonneg:
  fixes f :: "'a \<Rightarrow> real"
  shows "(\<And>x. x \<in> set xs \<Longrightarrow> 0 \<le> f x) \<Longrightarrow> a \<le> fold (\<lambda>x d. d + f x) xs a"
proof (induction xs arbitrary: a)
  case Nil
  then show ?case by simp
next
  case (Cons x xs)
  have "a \<le> a + f x" using Cons.prems [of x] by simp
  also have "\<dots> \<le> fold (\<lambda>x d. d + f x) xs (a + f x)"
    using Cons.prems by (intro Cons.IH) simp
  finally show ?case by simp
qed

lemma poly6Kernel_nonneg:
  assumes "0 < poly6Constant s" and "0 \<le> r"
  shows "0 \<le> poly6Kernel s r hr"
proof (cases "r > hr")
  case True
  then show ?thesis by (simp add: poly6Kernel_def)
next
  case False
  then have "0 \<le> (hr - r) * (hr + r)" using assms(2) by (intro mult_nonneg_nonneg) simp_all
  then have t: "0 \<le> hr * hr - r * r" by (simp add: algebra_simps)
  have "0 \<le> poly6Constant s * (hr * hr - r * r) * (hr * hr - r * r) * (hr * hr - r * r)"
    using assms(1) t by (intro mult_nonneg_nonneg) simp_all
  then show ?thesis using False by (simp add: poly6Kernel_def Let_def)
qed

lemma poly6Kernel_self_pos:
  assumes "0 < poly6Constant s" and "0 < hr"
  shows "0 < poly6Kernel s 0 hr"
  using assms by (simp add: poly6Kernel_def Let_def)

lemma poly6Constant_pos: "0 < hr \<Longrightarrow> 0 < 315 / (64 * pi * hr ^ 9)" for hr :: real
  by simp

lemma findNeighbors_fields:
  "h (findNeighbors s) = h s" "poly6Constant (findNeighbors s) = poly6Constant s"
  by (simp_all add: findNeighbors_def)

text \<open>
  C4. In a solver with positive smoothing radius, the Poly6 constant the constructor
  derives from it, and particles of positive mass, every particle's density is strictly
  positive after \<open>findNeighbors\<close> and \<open>computeDensityPressure\<close>: the self term
  \<open>poly6Kernel(0, h) * mass\<close> is positive and every neighbour term is non-negative.
\<close>

theorem density_positive:
  assumes hpos: "0 < h s"
    and c6: "poly6Constant s = 315 / (64 * pi * h s ^ 9)"
    and mpos: "\<forall>p \<in> set (particles s). 0 < mass p"
    and i: "i < length (particles s)"
  shows "0 < density (particles (computeDensityPressure (findNeighbors s)) ! i)"
proof -
  define s1 where "s1 = findNeighbors s"
  have cpos: "0 < poly6Constant s1"
    unfolding s1_def findNeighbors_fields c6 using hpos by (rule poly6Constant_pos)
  have h1: "h s1 = h s" by (simp add: s1_def findNeighbors_fields)
  have len: "length (particles s1) = length (particles s)"
    by (simp add: s1_def findNeighbors_length)
  have nth: "particles s1 ! k = (particles s ! k)\<lparr> neighbors := neighborsOf s k \<rparr>"
    if "k < length (particles s)" for k
    using that by (simp add: s1_def findNeighbors_nth)
  have mass1: "0 < mass (particles s1 ! k)" if "k < length (particles s)" for k
    using that mpos by (simp add: nth)
  have self: "0 < poly6Kernel s1 0 (h s1) * mass (particles s1 ! i)"
    using cpos hpos mass1 [OF i] by (simp add: h1 poly6Kernel_self_pos)
  have contrib: "0 \<le> mass (particles s1 ! particle nb) * poly6Kernel s1 (distance nb) (h s1)"
    if "nb \<in> set (neighbors (particles s1 ! i))" for nb
  proof -
    have nb: "nb \<in> set (neighborsOf s i)" using that i by (simp add: nth)
    then obtain k where k: "k < length (particles s)" and e: "nb = neighborEntry s i k"
      unfolding neighborsOf_set by blast
    have "0 \<le> distance nb" by (simp add: e neighborEntry_def distanceTo_nonneg)
    then have "0 \<le> poly6Kernel s1 (distance nb) (h s1)"
      using cpos by (rule poly6Kernel_nonneg [rotated])
    moreover have "0 < mass (particles s1 ! particle nb)"
      using mass1 [OF k] by (simp add: e neighborEntry_def)
    ultimately show ?thesis by simp
  qed
  have "0 < densityOf s1 (particles s1 ! i)"
    unfolding densityOf_def
    using self fold_add_nonneg [of "neighbors (particles s1 ! i)"
        "\<lambda>nb. mass (particles s1 ! particle nb) * poly6Kernel s1 (distance nb) (h s1)"
        "poly6Kernel s1 0 (h s1) * mass (particles s1 ! i)"] contrib
    by fastforce
  then show ?thesis
    using i len by (simp add: computeDensityPressure_def s1_def [symmetric])
qed

lemma pairDemo_poly6: "poly6Constant pairDemo = 315 / (64 * pi * h pairDemo ^ 9)"
  by (simp add: pairDemo_def addParticle_def defaultSystem_def defaultParams_def
      SPHSystem_constructor_def Let_def)

theorem density_positive_witness:
  "0 < h pairDemo \<and> poly6Constant pairDemo = 315 / (64 * pi * h pairDemo ^ 9)
   \<and> length (particles pairDemo) = 2
   \<and> mass (particles pairDemo ! 0) = 1 \<and> mass (particles pairDemo ! 1) = 1
   \<and> 0 < density (particles (computeDensityPressure (findNeighbors pairDemo)) ! 0)
   \<and> 0 < density (particles (computeDensityPressure (findNeighbors pairDemo)) ! 1)"
  using density_positive [of pairDemo 0] density_positive [of pairDemo 1] pairDemo_poly6
  by (simp add: pairDemo_particles pairDemo_h SPHParticle_def)

lemma spikyGrad_negate:
  "spikyGradKernel s r hr (multiplyScalar dir (- 1)) = multiplyScalar (spikyGradKernel s r hr dir) (- 1)"
  by (simp add: spikyGradKernel_def multiplyScalar_def Let_def)

lemma js_or_nonzero: "d \<noteq> 0 \<Longrightarrow> js_or v d \<noteq> 0"
  by (cases v) simp_all

lemma constructor_fields:
  assumes "SPHSystem_constructor params = Some s0"
  shows "particles s0 = []" and "h s0 \<noteq> 0" and "particleMass s0 \<noteq> 0"
    and "poly6Constant s0 = 315 / (64 * pi * h s0 ^ 9)"
proof -
  have s0: "s0 = the (SPHSystem_constructor params)" using assms by simp
  show "particles s0 = []" and "poly6Constant s0 = 315 / (64 * pi * h s0 ^ 9)"
    unfolding s0 by (simp_all add: SPHSystem_constructor_def Let_def)
  show "h s0 \<noteq> 0" and "particleMass s0 \<noteq> 0"
    unfolding s0 by (simp_all add: SPHSystem_constructor_def Let_def js_or_nonzero)
qed

lemma two_particles:
  assumes "particles s0 = []"
  shows "particles (addParticle (addParticle s0 pA) pB)
       = [SPHParticle pA (particleMass s0), SPHParticle pB (particleMass s0)]"
  using assms by (simp add: addParticle_def)

lemma neighborsOf_pair0:
  assumes "particles s = [P, Q]"
  shows "neighborsOf s 0 =
      (if distanceTo (position P) (position Q) < h s
       then [\<lparr> particle = 1, distance = distanceTo (position P) (position Q),
               direction = normalize_v (sub_v (position Q) (position P)) \<rparr>] else [])"
  using assms
  by (simp add: neighborsOf_def neighborEntry_def)

lemma neighborsOf_pair1:
  assumes "particles s = [P, Q]"
  shows "neighborsOf s 1 =
      (if distanceTo (position Q) (position P) < h s
       then [\<lparr> particle = 0, distance = distanceTo (position Q) (position P),
               direction = normalize_v (sub_v (position P) (position Q)) \<rparr>]
       else [])"
  using assms
  by (simp add: neighborsOf_def neighborEntry_def)

lemma findNeighbors_pair:
  assumes "particles s = [P, Q]"
  shows "particles (findNeighbors s) =
           [P\<lparr> neighbors := neighborsOf s 0 \<rparr>, Q\<lparr> neighbors := neighborsOf s 1 \<rparr>]"
  using assms by (simp add: findNeighbors_def)

lemma densityOf_nil: "neighbors p = [] \<Longrightarrow> densityOf s p = poly6Kernel s 0 (h s) * mass p"
  by (simp add: densityOf_def)

lemma densityOf_single:
  "neighbors p = [nb] \<Longrightarrow>
     densityOf s p = poly6Kernel s 0 (h s) * mass p
                   + mass (particles s ! particle nb) * poly6Kernel s (distance nb) (h s)"
  by (simp add: densityOf_def)

lemma pressureForceOn_nil: "neighbors p = [] \<Longrightarrow> pressureForceOn s p = Vector3 0 0 0"
  by (simp add: pressureForceOn_def forceSums_def)

lemma pressureForceOn_single:
  "neighbors p = [nb] \<Longrightarrow>
     pressureForceOn s p =
       add_v (Vector3 0 0 0)
         (multiplyScalar (spikyGradKernel s (distance nb) (h s) (direction nb))
            (- mass (particles s ! particle nb)
               * ((pressure p + pressure (particles s ! particle nb))
                    / (2 * density (particles s ! particle nb)))))"
  by (simp add: pressureForceOn_def forceSums_def forceStep_def Let_def)

lemma computeDensityPressure_fields:
  "h (computeDensityPressure s) = h s"
  "length (particles (computeDensityPressure s)) = length (particles s)"
  by (simp_all add: computeDensityPressure_def)

lemma computeDensityPressure_nth:
  "k < length (particles s) \<Longrightarrow>
     particles (computeDensityPressure s) ! k =
       (particles s ! k)\<lparr> density := densityOf s (particles s ! k),
          pressure := gasConstant s * (densityOf s (particles s ! k) - restDensity s) \<rparr>"
  by (simp add: computeDensityPressure_def)

lemma negate_scale:
  "add_v (Vector3 0 0 0) (multiplyScalar (multiplyScalar g (- 1)) c)
     = multiplyScalar (add_v (Vector3 0 0 0) (multiplyScalar g c)) (- 1)"
  by (simp add: add_v_def multiplyScalar_def)

text \<open>
  C1. A constructed solver receives two particles through \<open>addParticle\<close> (so both have
  the solver's particle mass). After \<open>findNeighbors\<close> and \<open>computeDensityPressure\<close>
  the pressure force the neighbour loop of \<open>computeForces\<close> accumulates on the first
  particle is the negation of the one it accumulates on the second. The two densities are
  equal, and whenever the loop runs at all (the particles are neighbours) the density it
  divides by is not zero.
\<close>

theorem momentum_symmetry:
  fixes params :: sph_params and s0 :: sph_system and pA pB :: vec3
  defines "s \<equiv> computeDensityPressure (findNeighbors (addParticle (addParticle s0 pA) pB))"
  assumes built: "SPHSystem_constructor params = Some s0"
  shows "length (particles s) = 2
       \<and> pressureForceOn s (particles s ! 0) = multiplyScalar (pressureForceOn s (particles s ! 1)) (- 1)
       \<and> density (particles s ! 0) = density (particles s ! 1)
       \<and> (neighbors (particles s ! 0) = [] \<and> neighbors (particles s ! 1) = []
            \<or> density (particles s ! 0) \<noteq> 0)"
proof -
  define m where "m = particleMass s0"
  define s2 where "s2 = addParticle (addParticle s0 pA) pB"
  define s3 where "s3 = findNeighbors s2"
  define d where "d = distanceTo pA pB"
  define u where "u = normalize_v (sub_v pB pA)"
  define eA where "eA = \<lparr> particle = 1, distance = d, direction = u \<rparr>"
  define eB where "eB = \<lparr> particle = 0, distance = d, direction = multiplyScalar u (- 1) \<rparr>"
  define PA where "PA = SPHParticle pA m"
  define PB where "PB = SPHParticle pB m"
  have s: "s = computeDensityPressure s3" by (simp add: s_def s3_def s2_def)
  have ps2: "particles s2 = [PA, PB]"
    unfolding s2_def PA_def PB_def m_def by (rule two_particles) (rule constructor_fields [OF built])
  have h2: "h s2 = h s0" by (simp add: s2_def addParticle_def)
  have pos: "position PA = pA" "position PB = pB" "mass PA = m" "mass PB = m"
    by (simp_all add: PA_def PB_def SPHParticle_def)
  have nA: "neighborsOf s2 0 = (if d < h s0 then [eA] else [])"
    using neighborsOf_pair0 [OF ps2] by (simp add: pos h2 d_def u_def eA_def)
  have nB: "neighborsOf s2 (Suc 0) = (if d < h s0 then [eB] else [])"
    using neighborsOf_pair1 [OF ps2]
    by (simp add: pos h2 d_def u_def eB_def distanceTo_commute [of pB pA]
        normalize_sub_negate [of pA pB])
  have ps3: "particles s3 = [PA\<lparr> neighbors := neighborsOf s2 0 \<rparr>, PB\<lparr> neighbors := neighborsOf s2 1 \<rparr>]"
    unfolding s3_def by (rule findNeighbors_pair [OF ps2])
  have len: "length (particles s) = 2" by (simp add: s computeDensityPressure_fields ps3)
  have hs: "h s = h s0" "h s3 = h s0"
    by (simp_all add: s computeDensityPressure_def s3_def findNeighbors_def h2)
  have m0: "m \<noteq> 0" and h0: "h s0 \<noteq> 0"
    using constructor_fields [OF built] by (simp_all add: m_def)
  have c3: "poly6Constant s3 = 315 / (64 * pi * h s0 ^ 9)"
    using constructor_fields(4) [OF built]
    by (simp add: s3_def findNeighbors_def s2_def addParticle_def)
  show ?thesis
  proof (cases "d < h s0")
    case False
    have A: "particles s ! 0 = PA\<lparr> neighbors := [], density := poly6Kernel s3 0 (h s0) * m,
                 pressure := gasConstant s3 * (poly6Kernel s3 0 (h s0) * m - restDensity s3) \<rparr>"
      using False
      by (simp add: s computeDensityPressure_nth ps3 nA densityOf_nil hs pos)
    have B: "particles s ! Suc 0 = PB\<lparr> neighbors := [], density := poly6Kernel s3 0 (h s0) * m,
                 pressure := gasConstant s3 * (poly6Kernel s3 0 (h s0) * m - restDensity s3) \<rparr>"
      using False
      by (simp add: s computeDensityPressure_nth ps3 nB densityOf_nil hs pos)
    show ?thesis
      by (simp add: len A B pressureForceOn_nil multiplyScalar_def)
  next
    case True
    then have hpos: "0 < h s0" and dh: "d \<le> h s0" 
      using distanceTo_nonneg [of pA pB] by (simp_all add: d_def)
    define rho where "rho = poly6Kernel s3 0 (h s0) * m + m * poly6Kernel s3 d (h s0)"
    define prs where "prs = gasConstant s3 * (rho - restDensity s3)"
    have A: "particles s ! 0 = PA\<lparr> neighbors := [eA], density := rho, pressure := prs \<rparr>"
      using True
      by (simp add: s computeDensityPressure_nth ps3 nA nB densityOf_single hs pos eA_def
          rho_def prs_def)
    have B: "particles s ! Suc 0 = PB\<lparr> neighbors := [eB], density := rho, pressure := prs \<rparr>"
      using True
      by (simp add: s computeDensityPressure_nth ps3 nA nB densityOf_single hs pos eB_def
          rho_def prs_def)
    have fA: "pressureForceOn s (particles s ! 0) =
        add_v (Vector3 0 0 0) (multiplyScalar (spikyGradKernel s d (h s0) u)
           (- m * ((prs + prs) / (2 * rho))))"
      by (simp add: A pressureForceOn_single [of _ eA] B eA_def hs pos)
    have fB: "pressureForceOn s (particles s ! Suc 0) =
        add_v (Vector3 0 0 0) (multiplyScalar (spikyGradKernel s d (h s0) (multiplyScalar u (- 1)))
           (- m * ((prs + prs) / (2 * rho))))"
      by (simp add: B pressureForceOn_single [of _ eB] A eB_def hs pos)
    have cpos: "0 < poly6Constant s3" unfolding c3 using hpos by (rule poly6Constant_pos)
    have "0 < poly6Kernel s3 0 (h s0)" using cpos hpos by (rule poly6Kernel_self_pos)
    moreover have "0 \<le> poly6Kernel s3 d (h s0)"
      using cpos distanceTo_nonneg [of pA pB] unfolding d_def by (rule poly6Kernel_nonneg)
    ultimately have "0 < poly6Kernel s3 0 (h s0) + poly6Kernel s3 d (h s0)" by simp
    moreover have "rho = m * (poly6Kernel s3 0 (h s0) + poly6Kernel s3 d (h s0))"
      by (simp add: rho_def algebra_simps)
    ultimately have nz: "rho \<noteq> 0" using m0 by simp
    have "pressureForceOn s (particles s ! 0) = multiplyScalar (pressureForceOn s (particles s ! Suc 0)) (- 1)"
      unfolding fA fB spikyGrad_negate negate_scale
      by (simp add: multiplyScalar_def add_v_def)
    then show ?thesis using nz by (simp add: len A B)
  qed
qed

lemma defaultSystem_built: "SPHSystem_constructor defaultParams = Some defaultSystem"
  by (simp add: defaultSystem_def SPHSystem_constructor_def Let_def)

lemma pairDemo_neighbors:
  "neighbors (particles (computeDensityPressure (findNeighbors pairDemo)) ! 0)
     = [\<lparr> particle = 1, distance = 1 / 10, direction = Vector3 1 0 0 \<rparr>]"
proof -
  have "length_v (Vector3 (1 / 10) 0 0) = 1 / 10"
    using sqrt_hundredth by (simp add: length_v_def)
  then have "normalize_v (sub_v (Vector3 (1 / 10) 0 0) (Vector3 0 0 0)) = Vector3 1 0 0"
    by (simp add: normalize_v_def sub_v_def divideScalar_def multiplyScalar_def)
  then show ?thesis
    using neighborsOf_pair0 [OF pairDemo_particles]
    by (simp add: computeDensityPressure_nth findNeighbors_length findNeighbors_nth
        pairDemo_particles pairDemo_h SPHParticle_def pairDemo_distance)
qed

theorem momentum_symmetry_witness:
  "SPHSystem_constructor defaultParams = Some defaultSystem
   \<and> neighbors (particles (computeDensityPressure (findNeighbors pairDemo)) ! 0)
        = [\<lparr> particle = 1, distance = 1 / 10, direction = Vector3 1 0 0 \<rparr>]
   \<and> pressureForceOn (computeDensityPressure (findNeighbors pairDemo))
        (particles (computeDensityPressure (findNeighbors pairDemo)) ! 0)
      = multiplyScalar
          (pressureForceOn (computeDensityPressure (findNeighbors pairDemo))
             (particles (computeDensityPressure (findNeighbors pairDemo)) ! 1)) (- 1)
   \<and> density (particles (computeDensityPressure (findNeighbors pairDemo)) ! 0) \<noteq> 0"
  using momentum_symmetry [where params = defaultParams and ?s0.0 = defaultSystem
      and pA = "Vector3 0 0 0" and pB = "Vector3 0.1 0 0"]
    defaultSystem_built pairDemo_neighbors
  by (simp add: pairDemo_def)

subsection \<open>Initialisation\<close>

lemma fill_Nil: "fill cnt (s, c) [] = (s, c)"
  by (simp add: fill_def)

lemma fill_full: "cnt \<le> c \<Longrightarrow> fill cnt (s, c) poses = (s, c)"
  by (simp add: fill_def)

lemma fill_Cons:
  assumes "c < cnt"
  shows "fill cnt (s, c) (x # xs) = fill cnt (addParticle s x, Suc c) xs"
proof -
  have "cnt - c = Suc (cnt - Suc c)" using assms by simp
  then show ?thesis by (simp add: fill_def)
qed

lemma fill_append: "fill cnt (fill cnt st xs) ys = fill cnt st (xs @ ys)"
proof -
  obtain s c where st: "st = (s, c)" by (cases st)
  have n1: "cnt - (c + min (cnt - c) (length xs)) = cnt - c - length xs"
    by arith
  have n2: "c + min (cnt - c) (length xs) + min (cnt - c - length xs) (length ys)
          = c + min (cnt - c) (length xs + length ys)"
    by arith
  show ?thesis
    unfolding fill_def st by (simp add: n1 n2)
qed

lemma initLoopK_fill:
  "initLoopK ar spacing mn cnt nz i j k st
     = fill cnt st (map (gridPoint ar spacing mn i j) [k..<nat nz])"
proof (induction ar spacing mn cnt nz i j k st rule: initLoopK.induct)
  case (1 ar spacing mn cnt nz i j k s created)
  show ?case
  proof (cases "int k < nz \<and> created < cnt")
    case True
    then have k: "k < nat nz" by (simp add: zless_nat_eq_int_zless)
    have gp: "Vector3 (num_add ar (vx mn) (num_mul ar (real i) spacing))
                (num_add ar (vy mn) (num_mul ar (real j) spacing))
                (num_add ar (vz mn) (num_mul ar (real k) spacing)) = gridPoint ar spacing mn i j k"
      by (simp add: gridPoint_def)
    have "initLoopK ar spacing mn cnt nz i j k (s, created)
        = initLoopK ar spacing mn cnt nz i j (Suc k)
            (addParticle s (gridPoint ar spacing mn i j k), Suc created)"
      using True by (subst initLoopK.simps) (simp add: gp)
    also have "\<dots> = fill cnt (addParticle s (gridPoint ar spacing mn i j k), Suc created)
            (map (gridPoint ar spacing mn i j) [Suc k..<nat nz])"
      by (rule "1.IH" [OF True, unfolded gp])
    also have "\<dots> = fill cnt (s, created) (map (gridPoint ar spacing mn i j) [k..<nat nz])"
      using True k by (simp add: upt_conv_Cons fill_Cons)
    finally show ?thesis .
  next
    case False
    then have "nat nz \<le> k \<or> cnt \<le> created" by (auto simp add: zless_nat_eq_int_zless)
    then have "fill cnt (s, created) (map (gridPoint ar spacing mn i j) [k..<nat nz]) = (s, created)"
      by (auto simp add: fill_Nil fill_full)
    then show ?thesis using False by (subst initLoopK.simps) auto
  qed
qed

lemma initLoopJ_fill:
  "initLoopJ ar spacing mn cnt ny nz i j st
     = fill cnt st (concat (map (gridRow ar spacing mn nz i) [j..<nat ny]))"
proof (induction ar spacing mn cnt ny nz i j st rule: initLoopJ.induct)
  case (1 ar spacing mn cnt ny nz i j s created)
  show ?case
  proof (cases "int j < ny \<and> created < cnt")
    case True
    then have j: "j < nat ny" by (simp add: zless_nat_eq_int_zless)
    have "initLoopJ ar spacing mn cnt ny nz i j (s, created)
        = initLoopJ ar spacing mn cnt ny nz i (Suc j) (initLoopK ar spacing mn cnt nz i j 0 (s, created))"
      using True by (subst initLoopJ.simps) simp
    also have "\<dots> = fill cnt (initLoopK ar spacing mn cnt nz i j 0 (s, created))
            (concat (map (gridRow ar spacing mn nz i) [Suc j..<nat ny]))"
      using "1.IH" [OF True] by simp
    also have "\<dots> = fill cnt (s, created)
            (gridRow ar spacing mn nz i j @ concat (map (gridRow ar spacing mn nz i) [Suc j..<nat ny]))"
      by (simp add: initLoopK_fill fill_append gridRow_def)
    also have "\<dots> = fill cnt (s, created) (concat (map (gridRow ar spacing mn nz i) [j..<nat ny]))"
      using j by (simp add: upt_conv_Cons)
    finally show ?thesis .
  next
    case False
    then have "nat ny \<le> j \<or> cnt \<le> created" by (auto simp add: zless_nat_eq_int_zless)
    then have "fill cnt (s, created) (concat (map (gridRow ar spacing mn nz i) [j..<nat ny])) = (s, created)"
      by (auto simp add: fill_Nil fill_full)
    then show ?thesis using False by (subst initLoopJ.simps) auto
  qed
qed

lemma initLoopI_fill:
  "initLoopI ar spacing mn cnt nx ny nz i st
     = fill cnt st (concat (map (gridSlab ar spacing mn ny nz) [i..<nat nx]))"
proof (induction ar spacing mn cnt nx ny nz i st rule: initLoopI.induct)
  case (1 ar spacing mn cnt nx ny nz i s created)
  show ?case
  proof (cases "int i < nx \<and> created < cnt")
    case True
    then have i: "i < nat nx" by (simp add: zless_nat_eq_int_zless)
    have "initLoopI ar spacing mn cnt nx ny nz i (s, created)
        = initLoopI ar spacing mn cnt nx ny nz (Suc i) (initLoopJ ar spacing mn cnt ny nz i 0 (s, created))"
      using True by (subst initLoopI.simps) simp
    also have "\<dots> = fill cnt (initLoopJ ar spacing mn cnt ny nz i 0 (s, created))
            (concat (map (gridSlab ar spacing mn ny nz) [Suc i..<nat nx]))"
      using "1.IH" [OF True] by simp
    also have "\<dots> = fill cnt (s, created)
            (gridSlab ar spacing mn ny nz i @ concat (map (gridSlab ar spacing mn ny nz) [Suc i..<nat nx]))"
      by (simp add: initLoopJ_fill fill_append gridSlab_def)
    also have "\<dots> = fill cnt (s, created) (concat (map (gridSlab ar spacing mn ny nz) [i..<nat nx]))"
      using i by (simp add: upt_conv_Cons)
    finally show ?thesis .
  next
    case False
    then have "nat nx \<le> i \<or> cnt \<le> created" by (auto simp add: zless_nat_eq_int_zless)
    then have "fill cnt (s, created) (concat (map (gridSlab ar spacing mn ny nz) [i..<nat nx])) = (s, created)"
      by (auto simp add: fill_Nil fill_full)
    then show ?thesis using False by (subst initLoopI.simps) auto
  qed
qed

lemma gridPositions_slabs:
  "gridPositions ar hr rg =
     concat (map (gridSlab ar (num_mul ar hr 0.5) (region_min rg)
                    \<lfloor>num_div ar (num_sub ar (vy (region_max rg)) (vy (region_min rg))) (num_mul ar hr 0.5)\<rfloor>
                    \<lfloor>num_div ar (num_sub ar (vz (region_max rg)) (vz (region_min rg))) (num_mul ar hr 0.5)\<rfloor>)
               [0..<nat \<lfloor>num_div ar (num_sub ar (vx (region_max rg)) (vx (region_min rg)))
                            (num_mul ar hr 0.5)\<rfloor>])"
  unfolding gridPositions_def Let_def gridSlab_def gridRow_def gridPoint_def by (rule refl)

lemma initializeParticles_foldl:
  "initializeParticles ar s cnt rg = foldl addParticle s (take cnt (gridPositions ar (h s) rg))"
  unfolding initializeParticles_def Let_def initLoopI_fill gridPositions_slabs
  by (simp add: fill_def)

lemma particleMass_foldl: "particleMass (foldl addParticle s ps) = particleMass s"
  by (induction ps arbitrary: s) (simp_all add: addParticle_def)

lemma particles_foldl:
  "particles (foldl addParticle s ps) = particles s @ map (\<lambda>pos. SPHParticle pos (particleMass s)) ps"
  by (induction ps arbitrary: s) (simp_all add: addParticle_def)

lemma length_concat_const:
  "(\<And>x. x \<in> set xs \<Longrightarrow> length (f x) = n) \<Longrightarrow> length (concat (map f xs)) = length xs * n"
  by (induction xs) simp_all

lemma gridSlab_length: "length (gridSlab ar spacing mn ny nz i) = nat ny * nat nz"
  unfolding gridSlab_def gridRow_def
  by (simp add: length_concat_const [where n = "nat nz"])

lemma gridPositions_length: "length (gridPositions ar hr rg) = gridSize ar hr rg"
  unfolding gridPositions_slabs gridSize_def Let_def
  by (simp add: gridSlab_length length_concat_const
        [where n = "nat \<lfloor>num_div ar (num_sub ar (vy (region_max rg)) (vy (region_min rg))) (num_mul ar hr 0.5)\<rfloor>
          * nat \<lfloor>num_div ar (num_sub ar (vz (region_max rg)) (vz (region_min rg))) (num_mul ar hr 0.5)\<rfloor>"])

lemma position_SPHParticle: "position (SPHParticle pos m) = pos"
  by (simp add: SPHParticle_def)

text \<open>
  C9. Whatever the Number operations are, starting from an empty collection
  \<open>initializeParticles\<close> with target count \<open>cnt\<close> (a natural number) and region
  \<open>rg\<close> creates, through \<open>addParticle\<close>, the first \<open>cnt\<close> positions of the regular
  grid: spacing \<open>0.5 * h\<close> from \<open>min\<close>, x outermost, then y, then z innermost, with
  \<open>floor((max - min) / spacing)\<close> cells on each axis, the quotient being the one the
  Number operations give. So the number created is the minimum of \<open>cnt\<close> and the grid
  size, and a second solver with the same \<open>h\<close>, also starting empty, gets the same
  sequence of positions. (The spacing is not zero in a constructed solver unless it
  underflows.)
\<close>

theorem initializeParticles_grid:
  assumes "particles s = []" and "particles s2 = []" and "h s2 = h s"
    and "num_mul ar (h s) 0.5 \<noteq> 0"
  shows "particles (initializeParticles ar s cnt rg)
           = map (\<lambda>pos. SPHParticle pos (particleMass s)) (take cnt (gridPositions ar (h s) rg))
       \<and> map position (particles (initializeParticles ar s cnt rg)) = take cnt (gridPositions ar (h s) rg)
       \<and> length (particles (initializeParticles ar s cnt rg)) = min cnt (gridSize ar (h s) rg)
       \<and> map position (particles (initializeParticles ar s2 cnt rg))
           = map position (particles (initializeParticles ar s cnt rg))"
proof -
  have ps: "particles (initializeParticles ar t cnt rg)
           = map (\<lambda>pos. SPHParticle pos (particleMass t)) (take cnt (gridPositions ar (h t) rg))"
    if "particles t = []" for t
    using that by (simp add: initializeParticles_foldl particles_foldl)
  have mp: "map position (map (\<lambda>pos. SPHParticle pos m) xs) = xs" for m xs
    by (simp add: position_SPHParticle comp_def)
  show ?thesis
    unfolding ps [OF assms(1)] ps [OF assms(2)] mp assms(3)
    by (simp add: gridPositions_length min.commute)
qed

lemma upt_two: "[0..<2] = [0, Suc 0]"
  by (simp add: numeral_2_eq_2)

lemma gridDemo_positions:
  "gridPositions exactOps (4 / 25) gridDemoRegion
     = [Vector3 0 0 0, Vector3 0 0 (2 / 25), Vector3 (2 / 25) 0 0, Vector3 (2 / 25) 0 (2 / 25)]"
  by (simp add: gridPositions_def gridDemoRegion_def exactOps_def Let_def upt_two)

lemma gridDemo_size: "gridSize exactOps (4 / 25) gridDemoRegion = 4"
  by (simp add: gridSize_def gridDemoRegion_def exactOps_def Let_def)

lemma mainSystem_simps:
  "particles mainSystem = []" "h mainSystem = 3602879701896397 / 36028797018963968"
  by (simp_all add: mainSystem_def defaultParams_def SPHSystem_constructor_def Let_def)

lemma smallSystem_simps:
  "particles smallSystem = []" "h smallSystem = 3602879701896397 / 18014398509481984"
  by (simp_all add: smallSystem_def defaultParams_def SPHSystem_constructor_def Let_def)

text \<open>
  With the quotient rounded as double division rounds it, the grid of \<open>main.js\<close> has 20
  cells on each axis, as in the running program; the exact quotient of the same doubles
  is below 20 and would give 19. The grid of the second configuration has 2 cells on
  each axis either way.
\<close>

lemma mainGrid_rounded:
  "gridSize (roundedDivOps 48) (3602879701896397 / 36028797018963968) mainRegion = 8000"
  by (simp add: gridSize_def mainRegion_def roundedDivOps_def exactOps_def nearestMultiple_def
      Let_def)

lemma mainGrid_exact:
  "gridSize exactOps (3602879701896397 / 36028797018963968) mainRegion = 6859"
  by (simp add: gridSize_def mainRegion_def exactOps_def Let_def)

lemma smallGrid_rounded:
  "gridSize (roundedDivOps 51) (3602879701896397 / 18014398509481984) smallRegion = 8"
  by (simp add: gridSize_def smallRegion_def roundedDivOps_def exactOps_def nearestMultiple_def
      Let_def)

lemma smallGrid_exact:
  "gridSize exactOps (3602879701896397 / 18014398509481984) smallRegion = 8"
  by (simp add: gridSize_def smallRegion_def exactOps_def Let_def)

theorem initializeParticles_grid_witness:
  "particles defaultSystem = [] \<and> num_mul exactOps (h defaultSystem) 0.5 \<noteq> 0
   \<and> map position (particles (initializeParticles exactOps defaultSystem 3 gridDemoRegion))
        = [Vector3 0 0 0, Vector3 0 0 (2 / 25), Vector3 (2 / 25) 0 0]
   \<and> length (particles (initializeParticles exactOps defaultSystem 3 gridDemoRegion)) = 3
   \<and> length (particles (initializeParticles exactOps defaultSystem 7 gridDemoRegion)) = 4
   \<and> particles mainSystem = [] \<and> num_mul (roundedDivOps 48) (h mainSystem) 0.5 \<noteq> 0
   \<and> length (particles (initializeParticles (roundedDivOps 48) mainSystem 1000 mainRegion)) = 1000
   \<and> length (particles (initializeParticles (roundedDivOps 48) mainSystem 9000 mainRegion)) = 8000
   \<and> particles smallSystem = [] \<and> num_mul (roundedDivOps 51) (h smallSystem) 0.5 \<noteq> 0
   \<and> length (particles (initializeParticles (roundedDivOps 51) smallSystem 100 smallRegion)) = 8"
proof -
  have e: "num_mul exactOps (h defaultSystem) 0.5 \<noteq> 0"
    by (simp add: exactOps_def defaultSystem_simps)
  have r: "num_mul (roundedDivOps 48) (h mainSystem) 0.5 \<noteq> 0"
    by (simp add: roundedDivOps_def exactOps_def mainSystem_simps)
  have q: "num_mul (roundedDivOps 51) (h smallSystem) 0.5 \<noteq> 0"
    by (simp add: roundedDivOps_def exactOps_def smallSystem_simps)
  have d: "particles defaultSystem = []" and m: "particles mainSystem = []"
    and l: "particles smallSystem = []"
    by (simp_all add: defaultSystem_simps mainSystem_simps smallSystem_simps)
  show ?thesis
    using e r q
      initializeParticles_grid [OF d d refl e, of 3 gridDemoRegion]
      initializeParticles_grid [OF d d refl e, of 7 gridDemoRegion]
      initializeParticles_grid [OF m m refl r, of 1000 mainRegion]
      initializeParticles_grid [OF m m refl r, of 9000 mainRegion]
      initializeParticles_grid [OF l l refl q, of 100 smallRegion]
    by (simp add: defaultSystem_simps gridDemo_positions gridDemo_size
        mainSystem_simps mainGrid_rounded smallSystem_simps smallGrid_rounded
        position_SPHParticle gridPositions_length)
qed

subsection \<open>Sphere obstacle away from the centre\<close>

lemma length_v_nonneg: "0 \<le> length_v a"
  by (simp add: length_v_def)

lemma length_v_scale: "length_v (multiplyScalar a c) = \<bar>c\<bar> * length_v a"
proof -
  have "vx a * c * (vx a * c) + vy a * c * (vy a * c) + vz a * c * (vz a * c)
      = c\<^sup>2 * (vx a * vx a + vy a * vy a + vz a * vz a)"
    by (simp add: power2_eq_square algebra_simps)
  then show ?thesis
    by (simp add: length_v_def multiplyScalar_def real_sqrt_mult)
qed

lemma length_v_normalize: "length_v a \<noteq> 0 \<Longrightarrow> length_v (normalize_v a) = 1"
  using length_v_nonneg [of a]
  by (simp add: normalize_v_def divideScalar_def length_v_scale)

lemma distanceTo_add: "distanceTo (add_v c a) c = length_v a"
  by (simp add: distanceTo_def add_v_def length_v_def Let_def)

lemma dot_self: "dot_v a a = (length_v a)\<^sup>2"
proof -
  have "0 \<le> vx a * vx a + vy a * vy a + vz a * vz a" by simp
  then show ?thesis by (simp add: dot_v_def length_v_def)
qed

text \<open>
  Away from the centre the sphere handler does what its comments say. A penetrating
  particle that is not at the centre ends at distance \<open>radius + 0.05\<close> from it, and
  with a non-negative damping its velocity has no inward normal component afterwards.
\<close>

lemma sphere_pushout_off_center:
  assumes off: "position p \<noteq> center"
    and pen: "distanceTo (position p) center < rad + 0.05"
  shows "distanceTo (position (handleCollision (SphereObstacle center rad) p damping)) center
           = rad + 0.05"
proof -
  define n where "n = normalize_v (sub_v (position p) center)"
  have "length_v (sub_v (position p) center) \<noteq> 0"
  proof
    assume "length_v (sub_v (position p) center) = 0"
    then have z: "(vx (position p) - vx center) * (vx (position p) - vx center)
        + (vy (position p) - vy center) * (vy (position p) - vy center)
        + (vz (position p) - vz center) * (vz (position p) - vz center) = 0"
      by (simp add: length_v_def sub_v_def)
    have "vx (position p) - vx center = 0 \<and> vy (position p) - vy center = 0
        \<and> vz (position p) - vz center = 0"
      using z by (simp add: sum_squares_eq_zero_iff add_nonneg_eq_0_iff)
    then have "position p = center" by (simp add: vec3.expand)
    with off show False by simp
  qed
  then have unit: "length_v n = 1" unfolding n_def by (rule length_v_normalize)
  have rpos: "0 \<le> rad + 0.05" using pen distanceTo_nonneg [of "position p" center] by simp
  have "position (handleCollision (SphereObstacle center rad) p damping)
      = add_v center (multiplyScalar n (rad + 0.05))"
    using pen by (simp add: sphere_handleCollision_def Let_def n_def reflectVelocity_position)
  then show ?thesis
    using unit rpos by (simp add: distanceTo_add length_v_scale)
qed

lemma dot_reflect:
  assumes "dot_v n n = 1"
  shows "dot_v (multiplyScalar (sub_v v (multiplyScalar n (2 * dot_v v n))) d) n = - d * dot_v v n"
proof -
  have "dot_v (multiplyScalar (sub_v v (multiplyScalar n (2 * dot_v v n))) d) n
      = d * (dot_v v n - 2 * dot_v v n * dot_v n n)"
    by (simp add: dot_v_def multiplyScalar_def sub_v_def algebra_simps)
  then show ?thesis using assms by simp
qed

lemma sphere_velocity_outward:
  assumes off: "position p \<noteq> center"
    and pen: "distanceTo (position p) center < rad + 0.05"
    and damp: "0 \<le> damping"
  shows "0 \<le> dot_v (velocity (handleCollision (SphereObstacle center rad) p damping))
                 (normalize_v (sub_v (position p) center))"
proof -
  define n where "n = normalize_v (sub_v (position p) center)"
  have "length_v (sub_v (position p) center) \<noteq> 0"
  proof
    assume "length_v (sub_v (position p) center) = 0"
    then have z: "(vx (position p) - vx center) * (vx (position p) - vx center)
        + (vy (position p) - vy center) * (vy (position p) - vy center)
        + (vz (position p) - vz center) * (vz (position p) - vz center) = 0"
      by (simp add: length_v_def sub_v_def)
    have "vx (position p) - vx center = 0 \<and> vy (position p) - vy center = 0
        \<and> vz (position p) - vz center = 0"
      using z by (simp add: sum_squares_eq_zero_iff add_nonneg_eq_0_iff)
    then have "position p = center" by (simp add: vec3.expand)
    with off show False by simp
  qed
  then have "length_v n = 1" unfolding n_def by (rule length_v_normalize)
  then have unit: "dot_v n n = 1" by (simp add: dot_self)
  have vel: "velocity (handleCollision (SphereObstacle center rad) p damping)
      = (if dot_v (velocity p) n < 0
         then multiplyScalar (sub_v (velocity p) (multiplyScalar n (2 * dot_v (velocity p) n))) damping
         else velocity p)"
    using pen by (simp add: sphere_handleCollision_def Let_def n_def reflectVelocity_def)
  show ?thesis
  proof (cases "dot_v (velocity p) n < 0")
    case True
    then have "0 \<le> - damping * dot_v (velocity p) n"
      using damp by (simp add: mult_nonneg_nonpos)
    then show ?thesis
      unfolding n_def [symmetric] vel using True by (simp add: dot_reflect [OF unit])
  next
    case False
    then show ?thesis unfolding n_def [symmetric] vel by simp
  qed
qed

end
